theory Spec2Isabelle
  imports Main "HOL-Library.Word"
begin

unbundle bit_operations_syntax

section \<open>The launch service of Sighthound Video\<close>

text \<open>
  The development embeds the two builds of the launch service
  (\<^verbatim>\<open>src/launch/shlaunchMac/shlaunchMac/shlaunch.c\<close> and
  \<^verbatim>\<open>src/launch/shlaunchWin/shlaunch/shlaunch.c\<close>) and the client library
  \<^verbatim>\<open>src/launch/launch.c\<close>. Everything the operating system decides (the process
  table, whether a signal can be delivered, the result of \<^verbatim>\<open>fork\<close>, file contents,
  the clock) is an explicit input of the function that consumes it; every call that acts on
  the outside world is appended to a trace of actions. Log calls have no influence on
  control flow and are left out.
\<close>

subsection \<open>Constants of the two headers\<close>

type_synonym int32 = "32 word"
type_synonym uint32 = "32 word"

definition LAUNCH_MASK :: int32 where
  "LAUNCH_MASK = 0x0ffff"

definition LAUNCH_FLAG_KILL_FIRST :: int32 where
  "LAUNCH_FLAG_KILL_FIRST = 0x10000"

definition RET_SUCCESS :: int where "RET_SUCCESS = 0"
definition RET_ERROR :: int where "RET_ERROR = 1"
definition RET_SHARED_MEMORY_ERROR :: int where "RET_SHARED_MEMORY_ERROR = 2"
definition RET_ACTIVATE_ERROR :: int where "RET_ACTIVATE_ERROR = 3"
definition RET_ARGS_ERROR :: int where "RET_ARGS_ERROR = 4"
definition RET_BUILD_MISMATCH :: int where "RET_BUILD_MISMATCH = 5"
definition RET_SETUID_ERROR :: int where "RET_SETUID_ERROR = 6"

definition MAX_PROCESSES :: nat where
  "MAX_PROCESSES = 256"

definition KILL_WAIT_RETRIES :: nat where
  "KILL_WAIT_RETRIES = 20"

definition SV_EXE :: string where
  "SV_EXE = ''Sighthound Video''"

definition SIGHTHOUND_PROCESS_NAMES :: "string list" where
  "SIGHTHOUND_PROCESS_NAMES = [SV_EXE, ''shlaunch'']"

definition PLIST_PATH :: string where
  "PLIST_PATH = ''/Library/LaunchDaemons/com.sighthound.video.launch.plist''"

subsection \<open>Actions on the outside world\<close>

text \<open>
  \<open>Kill p\<close> is a call of \<^verbatim>\<open>kill(p, SIGKILL)\<close>, \<open>Shm_create n\<close> a creating
  \<^verbatim>\<open>shmget\<close> of \<open>n\<close> bytes, \<open>Shm_removed\<close> an \<^verbatim>\<open>IPC_RMID\<close>.
\<close>

datatype action =
    Signal_handler_installed
  | Kill int
  | Unlink string
  | Fork
  | Shm_create nat
  | Shm_removed
  | Activate

subsection \<open>Mac build: process enumeration\<close>

text \<open>One entry of the \<^verbatim>\<open>kinfo_proc\<close> array that \<^verbatim>\<open>sysctl\<close> fills in.\<close>

record kinfo_proc =
  p_uid :: int
  p_pid :: int
  p_ppid :: int
  p_comm :: string

text \<open>
  \<^verbatim>\<open>enum_processes\<close>: when \<^verbatim>\<open>sysctl\<close> fails (or no buffer can be had) the error
  code is returned and the handler is never called; this is the snapshot \<open>Inl e\<close>.
  Otherwise the handler runs on each entry in order, and the first result other than zero
  stops the walk and is returned.
\<close>

fun enum_loop ::
  "('c \<Rightarrow> int \<Rightarrow> int \<Rightarrow> int \<Rightarrow> string \<Rightarrow> int \<times> 'c) \<Rightarrow> 'c \<Rightarrow> kinfo_proc list \<Rightarrow> int \<times> 'c" where
  "enum_loop handler ctx [] = (0, ctx)"
| "enum_loop handler ctx (k # kips) =
     (case handler ctx (p_uid k) (p_pid k) (p_ppid k) (p_comm k) of
        (res, ctx') \<Rightarrow> if res \<noteq> 0 then (res, ctx') else enum_loop handler ctx' kips)"

definition enum_processes ::
  "('c \<Rightarrow> int \<Rightarrow> int \<Rightarrow> int \<Rightarrow> string \<Rightarrow> int \<times> 'c) \<Rightarrow> 'c \<Rightarrow> int + kinfo_proc list \<Rightarrow> int \<times> 'c" where
  "enum_processes handler ctx snap =
     (case snap of Inl e \<Rightarrow> (e, ctx) | Inr kips \<Rightarrow> enum_loop handler ctx kips)"

fun is_sv_process_loop :: "string list \<Rightarrow> string \<Rightarrow> int" where
  "is_sv_process_loop [] comm = 0"
| "is_sv_process_loop (n # spn) comm = (if n = comm then 1 else is_sv_process_loop spn comm)"

definition is_sv_process :: "string \<Rightarrow> int" where
  "is_sv_process comm = is_sv_process_loop SIGHTHOUND_PROCESS_NAMES comm"

text \<open>
  \<^verbatim>\<open>struct FindProcessesContext\<close>: the array of \<^verbatim>\<open>MAX_PROCESSES\<close> PIDs and the number
  of entries in use. \<^verbatim>\<open>memset\<close> zeroes both.
\<close>

record FindProcessesContext =
  pids :: "int list"
  count :: nat

definition fpctx_zero :: FindProcessesContext where
  "fpctx_zero = \<lparr>pids = replicate MAX_PROCESSES 0, count = 0\<rparr>"

definition find_handler ::
  "FindProcessesContext \<Rightarrow> int \<Rightarrow> int \<Rightarrow> int \<Rightarrow> string \<Rightarrow> int \<times> FindProcessesContext" where
  "find_handler fpctx uid pid ppid comm =
     (if is_sv_process comm \<noteq> 0 then
        (if count fpctx < MAX_PROCESSES
         then (0, fpctx\<lparr>pids := (pids fpctx)[count fpctx := pid], count := count fpctx + 1\<rparr>)
         else (- 2, fpctx))
      else (0, fpctx))"

subsection \<open>Mac build: killing the old processes\<close>

text \<open>
  The identity of the running service: \<^verbatim>\<open>getpid()\<close>, \<^verbatim>\<open>getppid()\<close> and the global
  \<^verbatim>\<open>_noKillPid\<close>.
\<close>

record mac_ident =
  ownPid :: int
  parentPid :: int
  g_noKillPid :: int

text \<open>
  What one pass sees of the system: the process snapshot, and the PIDs for which
  \<^verbatim>\<open>kill\<close> reports an error.
\<close>

record pass_obs =
  snapshot :: "int + kinfo_proc list"
  kill_denied :: "int list"

record kill_pass =
  kp_err :: int
  kp_found :: "int list"
  kp_killed :: int
  kp_result :: int
  kp_signaled :: "int list"

text \<open>
  The loop over the sorted PIDs of \<^verbatim>\<open>kill_old_processes\<close>. The accumulator holds
  \<^verbatim>\<open>killed\<close>, \<^verbatim>\<open>result\<close> and the PIDs handed to \<^verbatim>\<open>kill(pid, SIGKILL)\<close> so far.
\<close>

fun kill_each ::
  "mac_ident \<Rightarrow> int \<Rightarrow> int list \<Rightarrow> int list \<Rightarrow> int \<times> int \<times> int list \<Rightarrow> int \<times> int \<times> int list" where
  "kill_each ids noKillPid denied [] acc = acc"
| "kill_each ids noKillPid denied (pid # rest) (killed, result, sigs) =
     (if ownPid ids = pid \<or> parentPid ids = pid \<or> g_noKillPid ids = pid \<or> noKillPid = pid
      then kill_each ids noKillPid denied rest (killed, result - 1, sigs)
      else if pid \<in> set denied
      then kill_each ids noKillPid denied rest (killed, result, sigs @ [pid])
      else kill_each ids noKillPid denied rest (killed + 1, result, sigs @ [pid]))"

text \<open>
  \<^verbatim>\<open>kill_old_processes\<close>. \<^verbatim>\<open>qsort\<close> with \<^verbatim>\<open>cmp_int\<close> orders the first
  \<^verbatim>\<open>count\<close> entries ascending (PIDs are non-negative, so the subtraction in
  \<^verbatim>\<open>cmp_int\<close> does not overflow). An enumeration error is logged and the pass goes on
  with what was collected.
\<close>

definition kill_old_processes :: "mac_ident \<Rightarrow> int \<Rightarrow> pass_obs \<Rightarrow> kill_pass" where
  "kill_old_processes ids noKillPid obs =
     (case enum_processes find_handler fpctx_zero (snapshot obs) of
        (err, fpctx) \<Rightarrow>
          (let sorted = sort (take (count fpctx) (pids fpctx)) in
           case kill_each ids noKillPid (kill_denied obs) sorted (0, int (count fpctx), []) of
             (killed, result, sigs) \<Rightarrow>
               \<lparr>kp_err = err, kp_found = sorted, kp_killed = killed,
                kp_result = result, kp_signaled = sigs\<rparr>))"

text \<open>
  \<^verbatim>\<open>kill_old_processes_and_wait\<close>: pass \<open>i\<close> of the loop sees \<open>os i\<close>. The last
  argument is the value of \<^verbatim>\<open>retries\<close>; the result is the return code and the PIDs
  signalled over all passes.
\<close>

fun kill_wait_loop ::
  "mac_ident \<Rightarrow> int \<Rightarrow> (nat \<Rightarrow> pass_obs) \<Rightarrow> nat \<Rightarrow> nat \<Rightarrow> int \<times> int list" where
  "kill_wait_loop ids noKillPid os i 0 =
     (let kp = kill_old_processes ids noKillPid (os i) in
      (if kp_result kp \<noteq> 0 then RET_ERROR else RET_SUCCESS, kp_signaled kp))"
| "kill_wait_loop ids noKillPid os i (Suc retries) =
     (let kp = kill_old_processes ids noKillPid (os i) in
      if kp_result kp \<noteq> 0 then
        (if retries = 0 then (RET_ERROR, kp_signaled kp)
         else (case kill_wait_loop ids noKillPid os (Suc i) retries of
                 (ret, sigs) \<Rightarrow> (ret, kp_signaled kp @ sigs)))
      else (RET_SUCCESS, kp_signaled kp))"

definition kill_old_processes_and_wait ::
  "mac_ident \<Rightarrow> int \<Rightarrow> (nat \<Rightarrow> pass_obs) \<Rightarrow> int \<times> int list" where
  "kill_old_processes_and_wait ids noKillPid os =
     kill_wait_loop ids noKillPid os 0 KILL_WAIT_RETRIES"

subsection \<open>Mac build: the shared memory\<close>

text \<open>
  \<^verbatim>\<open>struct Exchange\<close> of the Mac header. The field \<^verbatim>\<open>size\<close> is called
  \<open>xsize\<close> here. The padding bytes are never written and are left out.
\<close>

record Exchange =
  xsize :: uint32
  processId :: uint32
  cycles :: uint32
  status :: int32
  launchProcessId :: int32
  launch :: int32
  shutdown :: int32
  build :: string
  dataDir :: string

definition exchange_zero :: Exchange where
  "exchange_zero = \<lparr>xsize = 0, processId = 0, cycles = 0, status = 0, launchProcessId = 0,
     launch = 0, shutdown = 0, build = [], dataDir = []\<rparr>"

text \<open>
  The size of the packed structure, field by field. \<^verbatim>\<open>PATH_MAX\<close> and the width of
  \<^verbatim>\<open>wchar_t\<close> are those of the Darwin system headers.
\<close>

definition PATH_MAX :: nat where
  "PATH_MAX = 1024"

definition sizeof_wchar_t :: nat where
  "sizeof_wchar_t = 4"

definition sizeof_Exchange :: nat where
  "sizeof_Exchange =
     3 * 4 + 4 * 4 + 8 * 1 + PATH_MAX * sizeof_wchar_t + (PATH_MAX * 2 + 8 * 1 + 5 * 4) div 16"

text \<open>The atomic primitives the service uses on the shared fields.\<close>

definition sync_fetch_and_and_launch :: "Exchange \<Rightarrow> int32 \<Rightarrow> Exchange" where
  "sync_fetch_and_and_launch ex m = ex\<lparr>launch := launch ex AND m\<rparr>"

definition sync_swap_status :: "Exchange \<Rightarrow> int32 \<Rightarrow> Exchange" where
  "sync_swap_status ex v = ex\<lparr>status := v\<rparr>"

definition sync_swap_shutdown :: "Exchange \<Rightarrow> int32 \<Rightarrow> Exchange" where
  "sync_swap_shutdown ex v = ex\<lparr>shutdown := v\<rparr>"

text \<open>
  \<^verbatim>\<open>exchange_open\<close>. The inputs are the \<^verbatim>\<open>errno\<close> of the first and second
  \<^verbatim>\<open>shmget\<close> (zero when the call succeeds), the result of \<^verbatim>\<open>exchange_reset\<close> and
  whether \<^verbatim>\<open>shmat\<close> succeeds. \<open>Shm_create n\<close> records a call of \<^verbatim>\<open>shmget\<close> with
  \<^verbatim>\<open>IPC_CREAT | IPC_EXCL\<close> and size \<open>n\<close>; what \<^verbatim>\<open>exchange_reset\<close> removes is
  not recorded.
\<close>

definition EEXIST :: int where "EEXIST = 17"
definition EINVAL :: int where "EINVAL = 22"

record shm_env =
  shmget_errno1 :: int
  reset_err :: int
  shmget_errno2 :: int
  shmat_ok :: bool

definition exchange_open :: "shm_env \<Rightarrow> int \<times> action list" where
  "exchange_open e =
     (if shmget_errno1 e \<noteq> 0 then
        (if (shmget_errno1 e = EEXIST \<or> shmget_errno1 e = EINVAL) \<and> reset_err e = 0 then
           (if shmget_errno2 e \<noteq> 0
            then (RET_SHARED_MEMORY_ERROR, [Shm_create sizeof_Exchange, Shm_create sizeof_Exchange])
            else if \<not> shmat_ok e
            then (RET_SHARED_MEMORY_ERROR,
                  [Shm_create sizeof_Exchange, Shm_create sizeof_Exchange, Shm_removed])
            else (RET_SUCCESS, [Shm_create sizeof_Exchange, Shm_create sizeof_Exchange]))
         else (RET_SHARED_MEMORY_ERROR, [Shm_create sizeof_Exchange]))
      else if \<not> shmat_ok e
      then (RET_SHARED_MEMORY_ERROR, [Shm_create sizeof_Exchange, Shm_removed])
      else (RET_SUCCESS, [Shm_create sizeof_Exchange]))"

subsection \<open>Mac build: the configuration file\<close>

record SHLaunchConfig =
  autoStart :: bool
  backend :: bool

definition cfgDefault :: SHLaunchConfig where
  "cfgDefault = \<lparr>autoStart = False, backend = True\<rparr>"

definition CONFIG_VALUE_TRUE :: string where
  "CONFIG_VALUE_TRUE = ''TRUE''"

definition tokenAutoStart :: string where
  "tokenAutoStart = ''autostart=''"

definition tokenBackend :: string where
  "tokenBackend = ''backend=''"

text \<open>
  \<^verbatim>\<open>strncmp(s, t, n) == 0\<close> on strings without NUL: the first \<open>n\<close> characters agree,
  a shorter string ending where the other one does.
\<close>

definition strncmp_eq :: "string \<Rightarrow> string \<Rightarrow> nat \<Rightarrow> bool" where
  "strncmp_eq s t n = (take n s = take n t)"

text \<open>
  The chunks \<^verbatim>\<open>fgets(ln, 256, f)\<close> returns one after the other: up to 255 characters,
  ending after a newline. The first argument is the chunk read so far.
\<close>

fun fgets_lines :: "string \<Rightarrow> string \<Rightarrow> string list" where
  "fgets_lines cur [] = (if cur = [] then [] else [cur])"
| "fgets_lines cur (c # cs) =
     (if c = CHR 0x0A \<or> length (cur @ [c]) = 255
      then (cur @ [c]) # fgets_lines [] cs
      else fgets_lines (cur @ [c]) cs)"

definition cfg_line :: "string \<Rightarrow> SHLaunchConfig \<times> int \<Rightarrow> SHLaunchConfig \<times> int" where
  "cfg_line ln cf =
     (case cf of (cfg, found) \<Rightarrow>
        if strncmp_eq ln tokenAutoStart (length tokenAutoStart) then
          (cfg\<lparr>autoStart := strncmp_eq (drop (length tokenAutoStart) ln) CONFIG_VALUE_TRUE
                                (length CONFIG_VALUE_TRUE)\<rparr>,
           found OR 1)
        else if strncmp_eq ln tokenBackend (length tokenBackend) then
          (cfg\<lparr>backend := strncmp_eq (drop (length tokenBackend) ln) CONFIG_VALUE_TRUE
                              (length CONFIG_VALUE_TRUE)\<rparr>,
           found OR 2)
        else (cfg, found))"

text \<open>\<^verbatim>\<open>cfg_load\<close>; the file is \<open>None\<close> when \<^verbatim>\<open>fopen\<close> fails.\<close>

definition cfg_load :: "string option \<Rightarrow> bool \<times> SHLaunchConfig" where
  "cfg_load file =
     (case file of
        None \<Rightarrow> (False, cfgDefault)
      | Some txt \<Rightarrow>
          (case fold cfg_line (fgets_lines [] txt) (cfgDefault, 0) of
             (cfg, found) \<Rightarrow> (3 = found, cfg)))"

subsection \<open>Mac build: launching the backend\<close>

text \<open>
  \<^verbatim>\<open>launch_backend\<close>. Inputs: whether \<^verbatim>\<open>malloc\<close> of the environment succeeds and
  the value \<^verbatim>\<open>fork\<close> returns. The outcome keeps the local variable \<^verbatim>\<open>result\<close>
  beside the value the function returns, which is the constant \<^verbatim>\<open>RET_SUCCESS\<close> of the
  last line. With \<^verbatim>\<open>fork\<close> returning 0 the code runs in the child, which calls
  \<^verbatim>\<open>execve\<close> and \<^verbatim>\<open>exit(0)\<close> and never returns.
\<close>

record spawn_env =
  env_malloc_ok :: bool
  fork_ret :: int

record launch_outcome =
  lb_return :: int
  lb_result :: int
  lb_in_child :: bool
  lb_actions :: "action list"

definition launch_backend :: "spawn_env \<Rightarrow> launch_outcome" where
  "launch_backend e =
     (if \<not> env_malloc_ok e then
        \<lparr>lb_return = RET_SUCCESS, lb_result = RET_ERROR, lb_in_child = False, lb_actions = []\<rparr>
      else if 0 < fork_ret e then
        \<lparr>lb_return = RET_SUCCESS, lb_result = RET_SUCCESS, lb_in_child = False,
         lb_actions = [Fork]\<rparr>
      else if 0 = fork_ret e then
        \<lparr>lb_return = RET_SUCCESS, lb_result = RET_ERROR, lb_in_child = True,
         lb_actions = [Fork]\<rparr>
      else
        \<lparr>lb_return = RET_SUCCESS, lb_result = RET_ERROR, lb_in_child = False,
         lb_actions = [Fork]\<rparr>)"

subsection \<open>Mac build: the service loop\<close>

text \<open>
  The local variables of \<^verbatim>\<open>main\<close> that live across iterations (\<^verbatim>\<open>launch\<close>,
  \<^verbatim>\<open>kill\<close>, \<^verbatim>\<open>srcPid\<close>), the shared memory and the trace of actions.
\<close>

record mac_state =
  exchange :: Exchange
  launch_v :: int32
  kill_v :: int32
  srcPid :: int32
  trace :: "action list"

text \<open>
  What one iteration meets: the \<^verbatim>\<open>terminate\<close> flag at the loop test, whether
  \<^verbatim>\<open>access(argv[0], F_OK)\<close> finds the executable, the process table during the kill
  passes, the configuration file, the inputs of \<^verbatim>\<open>launch_backend\<close>, and what other
  processes write into the shared memory while the service is busy killing and while it
  sleeps.
\<close>

record mac_io =
  term_flag :: bool
  exe_present :: bool
  kill_obs :: "nat \<Rightarrow> pass_obs"
  during_kill :: "Exchange \<Rightarrow> Exchange"
  cfg_file :: "string option"
  spawn :: spawn_env
  during_sleep :: "Exchange \<Rightarrow> Exchange"

datatype loop_end = Terminated | Executable_gone | In_child

definition kill_step :: "mac_ident \<Rightarrow> mac_io \<Rightarrow> mac_state \<Rightarrow> mac_state" where
  "kill_step ids io s =
     (if kill_v s \<noteq> 0 then
        (case kill_old_processes_and_wait ids (sint (srcPid s)) (kill_obs io) of
           (ret, sigs) \<Rightarrow>
             s\<lparr>exchange := sync_fetch_and_and_launch (during_kill io (exchange s))
                              (NOT LAUNCH_FLAG_KILL_FIRST),
               trace := trace s @ map Kill sigs\<rparr>)
      else s)"

definition launch_step :: "mac_io \<Rightarrow> mac_state \<Rightarrow> loop_end option \<times> mac_state" where
  "launch_step io s =
     (if launch_v s \<noteq> 0 then
        (let cfg = snd (cfg_load (cfg_file io)) in
         if backend cfg then
           (let lo = launch_backend (spawn io) in
            if lb_in_child lo then (Some In_child, s\<lparr>trace := trace s @ lb_actions lo\<rparr>)
            else
              (None,
               s\<lparr>exchange := sync_fetch_and_and_launch
                                (sync_swap_status (exchange s) (if lb_return lo \<noteq> 0 then 0 else 1))
                                (NOT LAUNCH_MASK),
                 trace := trace s @ lb_actions lo\<rparr>))
         else (None, s\<lparr>exchange := sync_fetch_and_and_launch (exchange s) (NOT LAUNCH_MASK)\<rparr>))
      else (None, s))"

definition reread_step :: "mac_io \<Rightarrow> mac_state \<Rightarrow> mac_state" where
  "reread_step io s =
     (let ex = during_sleep io (exchange s) in
      s\<lparr>exchange := ex,
        srcPid := launchProcessId ex,
        launch_v := launch ex AND LAUNCH_MASK,
        kill_v := launch ex AND LAUNCH_FLAG_KILL_FIRST\<rparr>)"

text \<open>The body of the \<^verbatim>\<open>while\<close> loop; \<open>None\<close> means the loop goes on.\<close>

definition mac_iteration :: "mac_ident \<Rightarrow> mac_io \<Rightarrow> mac_state \<Rightarrow> loop_end option \<times> mac_state" where
  "mac_iteration ids io s =
     (let s1 = s\<lparr>exchange := (exchange s)\<lparr>cycles := cycles (exchange s) + 1\<rparr>\<rparr> in
      if \<not> exe_present io then (Some Executable_gone, s1\<lparr>trace := trace s1 @ [Unlink PLIST_PATH]\<rparr>)
      else
        (case launch_step io (kill_step ids io s1) of
           (None, s3) \<Rightarrow> (None, reread_step io s3)
         | (Some e, s3) \<Rightarrow> (Some e, s3)))"

text \<open>
  The loop over the iterations the service lives through. \<open>None\<close>: the inputs are used up
  and the loop is still running.
\<close>

fun mac_main_loop :: "mac_ident \<Rightarrow> mac_io list \<Rightarrow> mac_state \<Rightarrow> (loop_end \<times> mac_state) option" where
  "mac_main_loop ids [] s = None"
| "mac_main_loop ids (io # ios) s =
     (if term_flag io then Some (Terminated, s)
      else (case mac_iteration ids io s of
              (None, s') \<Rightarrow> mac_main_loop ids ios s'
            | (Some e, s') \<Rightarrow> Some (e, s')))"

text \<open>
  After the loop: the swap on \<^verbatim>\<open>shutdown\<close>, then \<^verbatim>\<open>wait_for_backend_exit\<close> (which
  only reads) and \<^verbatim>\<open>exchange_close\<close>.
\<close>

definition mac_after_loop :: "mac_state \<Rightarrow> mac_state" where
  "mac_after_loop s =
     s\<lparr>exchange := sync_swap_shutdown (exchange s) 1, trace := trace s @ [Shm_removed]\<rparr>"

subsection \<open>Mac build: \<^verbatim>\<open>main\<close>\<close>

record mac_boot =
  activate_ret :: int
  boot_kill_obs :: "nat \<Rightarrow> pass_obs"
  calloc_ok :: bool
  shm :: shm_env
  utf8_ok :: bool
  boot_cfg :: "string option"

definition APP_DATA_DIR :: string where
  "APP_DATA_DIR = ''/Library/Application Support/Sighthound Video''"

text \<open>
  \<^verbatim>\<open>main\<close>. The build tag \<^verbatim>\<open>SHLAUNCH_BUILD\<close> comes from a generated header and is
  the parameter \<open>tag\<close>. The result is \<open>None\<close> while the service is still running, else
  the exit code with the actions taken and, where the loop was entered, how it ended and the
  state the service left. \<^verbatim>\<open>_noKillPid\<close> and \<^verbatim>\<open>uid\<close> keep their initial \<open>- 1\<close> on the
  service path, only the activation path assigns them; \<^verbatim>\<open>activate\<close> is represented by
  its return code.
\<close>

definition mac_main ::
  "string \<Rightarrow> int \<Rightarrow> int \<Rightarrow> string list \<Rightarrow> mac_boot \<Rightarrow> mac_io list
     \<Rightarrow> (int \<times> action list \<times> (loop_end \<times> mac_state) option) option" where
  "mac_main tag own parent argv boot ios =
     (if length argv < 2 then Some (RET_ARGS_ERROR, [], None)
      else if argv ! 1 \<noteq> tag then Some (RET_BUILD_MISMATCH, [], None)
      else if 6 \<le> length argv \<and> argv ! 2 = ''--activate''
      then Some (activate_ret boot, [Signal_handler_installed, Activate], None)
      else
        (let ids = \<lparr>ownPid = own, parentPid = parent, g_noKillPid = - 1\<rparr>;
             tr1 = Signal_handler_installed
                     # map Kill (snd (kill_old_processes_and_wait ids (- 1) (boot_kill_obs boot)))
         in
         if \<not> calloc_ok boot then Some (RET_ERROR, tr1, None)
         else
           (case exchange_open (shm boot) of
              (ret, acts) \<Rightarrow>
                if ret \<noteq> 0 then Some (ret, tr1 @ acts, None)
                else if \<not> utf8_ok boot then Some (ret, tr1 @ acts @ [Shm_removed], None)
                else
                  (let cfg = snd (cfg_load (boot_cfg boot));
                       s0 = \<lparr>exchange = exchange_zero
                               \<lparr>xsize := of_nat sizeof_Exchange,
                                processId := of_int own,
                                build := take 7 tag,
                                dataDir := APP_DATA_DIR @ ''/''\<rparr>,
                             launch_v = (if autoStart cfg \<and> backend cfg then 1 else 0),
                             kill_v = LAUNCH_FLAG_KILL_FIRST,
                             srcPid = 0,
                             trace = tr1 @ acts\<rparr>
                   in
                   (case mac_main_loop ids ios s0 of
                      None \<Rightarrow> None
                    | Some (In_child, s) \<Rightarrow> Some (0, trace s, Some (In_child, s))
                    | Some (e, s) \<Rightarrow>
                        Some (RET_SUCCESS, trace (mac_after_loop s),
                              Some (e, mac_after_loop s)))))))"

subsection \<open>Windows build: shared memory and processes\<close>

text \<open>
  \<^verbatim>\<open>struct Exchange\<close> of the Windows header (fields prefixed with \<open>w\<close>), packed to
  one byte: seven 32-bit fields and \<^verbatim>\<open>MAX_PATH\<close> characters.
\<close>

record WExchange =
  wsize :: int32
  wcycles :: int32
  wprocessId :: uint32
  wstatus :: int32
  wlaunchProcessId :: uint32
  wlaunch :: int32
  wshutdown :: int32
  wdataDir :: string

definition sizeof_WExchange :: "nat \<Rightarrow> nat \<Rightarrow> nat" where
  "sizeof_WExchange max_path tchar_bytes = 7 * 4 + max_path * tchar_bytes"

text \<open>
  The size \<^verbatim>\<open>svc_main\<close> passes to \<^verbatim>\<open>CreateFileMapping\<close> is
  \<^verbatim>\<open>sizeof(exchange)\<close>, where \<^verbatim>\<open>exchange\<close> is declared
  \<^verbatim>\<open>struct Exchange*\<close>: the size of a pointer. The size it passes to
  \<^verbatim>\<open>ZeroMemory\<close> and stores in the field \<^verbatim>\<open>size\<close> is \<^verbatim>\<open>sizeof(*exchange)\<close>.
\<close>

definition svc_main_mapping_bytes :: "nat \<Rightarrow> nat" where
  "svc_main_mapping_bytes pointer_bytes = pointer_bytes"

definition svc_main_zeroed_bytes :: "nat \<Rightarrow> nat \<Rightarrow> nat" where
  "svc_main_zeroed_bytes max_path tchar_bytes = sizeof_WExchange max_path tchar_bytes"

definition SERVICE_EXE :: string where "SERVICE_EXE = ''shlaunch.exe''"
definition BACKEND_EXE :: string where "BACKEND_EXE = ''Sighthound Agent.exe''"

definition KILL_CANDIDATES_ALL :: "string list" where
  "KILL_CANDIDATES_ALL =
     [SERVICE_EXE, BACKEND_EXE, ''Sighthound Video.exe'', ''Sighthound USB.exe'',
      ''Sighthound Web.exe'', ''Sighthound XNAT.exe'', ''SighthoundXNAT.exe'']"

definition KILL_CANDIDATES :: "string list" where
  "KILL_CANDIDATES = tl KILL_CANDIDATES_ALL"

text \<open>\<^verbatim>\<open>_tcsicmp(a, b) == 0\<close>: equality after lower-casing the letters A to Z.\<close>

definition to_lower :: "char \<Rightarrow> char" where
  "to_lower c = (if 65 \<le> (of_char c :: nat) \<and> (of_char c :: nat) \<le> 90
                 then char_of ((of_char c :: nat) + 32) else c)"

definition tcsicmp_eq :: "string \<Rightarrow> string \<Rightarrow> bool" where
  "tcsicmp_eq a b = (map to_lower a = map to_lower b)"

text \<open>
  A process as \<^verbatim>\<open>enumerate_processes\<close> meets it: its PID, whether \<^verbatim>\<open>OpenProcess\<close>
  succeeds, the module base name when it can be read, whether \<^verbatim>\<open>TerminateProcess\<close>
  would succeed, and the error of \<^verbatim>\<open>CloseHandle\<close> (zero when it succeeds).
\<close>

record win_proc =
  wp_pid :: uint32
  wp_open :: bool
  wp_name :: "string option"
  wp_terminate_ok :: bool
  wp_close_err :: nat

text \<open>
  \<^verbatim>\<open>enumerate_processes\<close>. The handler gets the context and the process, and returns
  its verdict, the new context and whether it left the handle open. The counter
  \<open>result\<close> is incremented for every process the handler accepts.
\<close>

fun win_enum_loop ::
  "('c \<Rightarrow> win_proc \<Rightarrow> bool \<times> 'c \<times> bool) \<Rightarrow> 'c \<Rightarrow> nat \<Rightarrow> win_proc list \<Rightarrow> nat \<times> 'c" where
  "win_enum_loop handler ctx result [] = (result, ctx)"
| "win_enum_loop handler ctx result (p # ps) =
     (if wp_pid p = 0 then win_enum_loop handler ctx result ps
      else if \<not> wp_open p then win_enum_loop handler ctx result ps
      else
        (case wp_name p of
           None \<Rightarrow>
             (if wp_close_err p \<noteq> 0 then (wp_close_err p, ctx)
              else win_enum_loop handler ctx result ps)
         | Some exe \<Rightarrow>
             (case handler ctx p of
                (go_on, ctx', handle_open) \<Rightarrow>
                  if handle_open \<and> wp_close_err p \<noteq> 0 then (wp_close_err p, ctx')
                  else if go_on then win_enum_loop handler ctx' (result + 1) ps
                  else (result, ctx'))))"

text \<open>The snapshot is \<open>Inl err\<close> when \<^verbatim>\<open>malloc\<close> or \<^verbatim>\<open>EnumProcesses\<close> fails.\<close>

definition enumerate_processes ::
  "('c \<Rightarrow> win_proc \<Rightarrow> bool \<times> 'c \<times> bool) \<Rightarrow> 'c \<Rightarrow> nat + win_proc list \<Rightarrow> nat \<times> 'c" where
  "enumerate_processes handler ctx snap =
     (case snap of Inl err \<Rightarrow> (err, ctx) | Inr ps \<Rightarrow> win_enum_loop handler ctx 0 ps)"

text \<open>
  \<^verbatim>\<open>struct KillContext\<close>. The list \<open>terminate_calls\<close> is not in the source: it
  records the PIDs whose handle was passed to \<^verbatim>\<open>TerminateProcess\<close>.
\<close>

record KillContext =
  kills :: nat
  errors :: nat
  noKillPid :: uint32
  candidates :: "string list"
  terminatedProcesses :: "uint32 list"
  terminate_calls :: "uint32 list"

text \<open>
  The loop of \<^verbatim>\<open>kill_handler\<close> over the candidate names. After a successful
  \<^verbatim>\<open>TerminateProcess\<close> the handle is set to \<^verbatim>\<open>NULL\<close>, and on \<^verbatim>\<open>NULL\<close> the call
  fails.
\<close>

fun kill_candidates :: "string list \<Rightarrow> win_proc \<Rightarrow> string \<Rightarrow> KillContext \<times> bool \<Rightarrow> KillContext \<times> bool" where
  "kill_candidates [] p exe acc = acc"
| "kill_candidates (candidate # rest) p exe (kctx, handle_open) =
     (if \<not> tcsicmp_eq candidate exe then kill_candidates rest p exe (kctx, handle_open)
      else if handle_open \<and> wp_terminate_ok p then
        kill_candidates rest p exe
          (kctx\<lparr>terminatedProcesses := terminatedProcesses kctx @ [wp_pid p],
                kills := kills kctx + 1,
                terminate_calls := terminate_calls kctx @ [wp_pid p]\<rparr>, False)
      else
        kill_candidates rest p exe
          (kctx\<lparr>errors := errors kctx + 1,
                terminate_calls := terminate_calls kctx @ (if handle_open then [wp_pid p] else [])\<rparr>,
           handle_open))"

definition kill_handler :: "uint32 \<Rightarrow> KillContext \<Rightarrow> win_proc \<Rightarrow> bool \<times> KillContext \<times> bool" where
  "kill_handler current_pid kctx p =
     (if wp_pid p = current_pid \<or> wp_pid p = noKillPid kctx then (True, kctx, True)
      else
        (case kill_candidates (candidates kctx) p (case wp_name p of None \<Rightarrow> [] | Some exe \<Rightarrow> exe)
                (kctx, True) of
           (kctx', handle_open) \<Rightarrow> (True, kctx', handle_open)))"

text \<open>
  The identity of the running program. The parent is part of what the system knows about
  the process; the Windows source never asks for it.
\<close>

record win_ident =
  w_ownPid :: uint32
  w_parentPid :: uint32

definition kill_processes :: "win_ident \<Rightarrow> string list \<Rightarrow> uint32 \<Rightarrow> nat + win_proc list \<Rightarrow> KillContext" where
  "kill_processes ids cands nokill snap =
     snd (enumerate_processes (kill_handler (w_ownPid ids))
            \<lparr>kills = 0, errors = 0, noKillPid = nokill, candidates = cands,
             terminatedProcesses = [], terminate_calls = []\<rparr> snap)"

definition backend_detect_handler :: "nat \<Rightarrow> win_proc \<Rightarrow> bool \<times> nat \<times> bool" where
  "backend_detect_handler counter p =
     (True,
      counter + (if tcsicmp_eq BACKEND_EXE (case wp_name p of None \<Rightarrow> [] | Some exe \<Rightarrow> exe)
                 then 1 else 0),
      True)"

subsection \<open>Windows build: configuration and launch\<close>

record Config =
  w_autoStart :: bool
  w_backend :: bool

text \<open>
  What \<^verbatim>\<open>GetPrivateProfileString\<close> finds in section \<^verbatim>\<open>Main\<close> of the file for the two
  keys; \<open>None\<close> makes it return the default passed by \<^verbatim>\<open>config_read\<close>.
\<close>

record win_ini =
  ini_autostart :: "string option"
  ini_backend :: "string option"

definition config_read :: "win_ini \<Rightarrow> Config" where
  "config_read ini =
     \<lparr>w_autoStart = tcsicmp_eq ''TRUE'' (case ini_autostart ini of None \<Rightarrow> ''FALSE'' | Some v \<Rightarrow> v),
      w_backend = tcsicmp_eq ''TRUE'' (case ini_backend ini of None \<Rightarrow> ''TRUE'' | Some v \<Rightarrow> v)\<rparr>"

definition ERROR_SUCCESS :: nat where "ERROR_SUCCESS = 0"
definition ERROR_ACCESS_DENIED :: nat where "ERROR_ACCESS_DENIED = 5"

text \<open>
  The Windows \<^verbatim>\<open>launch_backend\<close>; \<open>create_err\<close> is zero when \<^verbatim>\<open>CreateProcessW\<close>
  succeeds and the value of \<^verbatim>\<open>GetLastError\<close> otherwise. The second component says
  whether \<^verbatim>\<open>CreateProcessW\<close> was called.
\<close>

definition w_launch_backend :: "Config \<Rightarrow> nat \<Rightarrow> nat \<times> bool" where
  "w_launch_backend cfg create_err =
     (if \<not> w_backend cfg then (ERROR_ACCESS_DENIED, False)
      else (if create_err = 0 then ERROR_SUCCESS else create_err, True))"

subsection \<open>Windows build: the service loop\<close>

datatype waction =
    Create_file_mapping nat
  | Zero_memory nat
  | Terminate uint32
  | Create_process
  | Descriptor_removed

record win_state =
  wexchange :: WExchange
  wconfig :: Config
  wtrace :: "waction list"

text \<open>
  The part of \<^verbatim>\<open>svc_main\<close> that sets up the shared memory, with the data directory it
  found: the mapping is created, mapped, zeroed, and the fields \<^verbatim>\<open>processId\<close>,
  \<^verbatim>\<open>dataDir\<close> and \<^verbatim>\<open>size\<close> are written. The sizes of a pointer and of a
  character and \<^verbatim>\<open>MAX_PATH\<close> belong to the compiler and the system headers and are
  parameters.
\<close>

definition svc_main_setup :: "nat \<Rightarrow> nat \<Rightarrow> nat \<Rightarrow> uint32 \<Rightarrow> string \<Rightarrow> waction list \<times> WExchange" where
  "svc_main_setup pointer_bytes max_path tchar_bytes current_pid dir =
     ([Create_file_mapping (svc_main_mapping_bytes pointer_bytes),
       Zero_memory (svc_main_zeroed_bytes max_path tchar_bytes)],
      \<lparr>wsize = of_nat (sizeof_WExchange max_path tchar_bytes), wcycles = 0,
       wprocessId = current_pid, wstatus = 0, wlaunchProcessId = 0, wlaunch = 0,
       wshutdown = 0, wdataDir = dir\<rparr>)"

text \<open>
  What one iteration meets: the configuration file, the process table, the result of
  \<^verbatim>\<open>CreateProcessW\<close>, whether the exit event is set, and what other processes write
  into the shared memory while the service is busy killing and while it waits.
  \<open>w_exe_present\<close> says whether the executable of the service is still on disk; the loop
  of \<^verbatim>\<open>svc_main\<close> does not look at it.
\<close>

record win_io =
  w_ini :: win_ini
  w_procs :: "nat + win_proc list"
  w_create_err :: nat
  w_exit_event :: bool
  w_during_kill :: "WExchange \<Rightarrow> WExchange"
  w_during_wait :: "WExchange \<Rightarrow> WExchange"
  w_exe_present :: bool

text \<open>
  The body of the \<^verbatim>\<open>for (;;)\<close> loop of \<^verbatim>\<open>svc_main\<close> up to the swap on
  \<^verbatim>\<open>status\<close>.
\<close>

definition win_body :: "win_ident \<Rightarrow> win_io \<Rightarrow> win_state \<Rightarrow> win_state" where
  "win_body ids io s =
     (let launch = wlaunch (wexchange s);
          ex1 = (wexchange s)\<lparr>wlaunch := 0\<rparr>;
          ex2 = ex1\<lparr>wcycles := wcycles ex1 + 1\<rparr>
      in
      if launch \<noteq> 0 then
        (let cfg = config_read (w_ini io);
             killing = (LAUNCH_FLAG_KILL_FIRST AND launch \<noteq> 0);
             tr_kill = (if killing
                        then map Terminate
                               (terminate_calls
                                  (kill_processes ids KILL_CANDIDATES (wlaunchProcessId ex2)
                                     (w_procs io)))
                        else []);
             ex3 = (if killing then w_during_kill io ex2 else ex2);
             tr_launch = (if LAUNCH_MASK AND launch \<noteq> 0
                             \<and> snd (w_launch_backend cfg (w_create_err io))
                          then [Create_process] else [])
         in \<lparr>wexchange = ex3\<lparr>wstatus := launch\<rparr>, wconfig = cfg,
             wtrace = wtrace s @ tr_kill @ tr_launch\<rparr>)
      else s\<lparr>wexchange := ex2\<lparr>wstatus := 0\<rparr>\<rparr>)"

text \<open>
  The whole iteration: the body, then the wait on the exit event; the first component says
  whether the loop is left.
\<close>

definition win_iteration :: "win_ident \<Rightarrow> win_io \<Rightarrow> win_state \<Rightarrow> bool \<times> win_state" where
  "win_iteration ids io s =
     (let s' = win_body ids io s in
      (w_exit_event io, s'\<lparr>wexchange := w_during_wait io (wexchange s')\<rparr>))"

fun win_main_loop :: "win_ident \<Rightarrow> win_io list \<Rightarrow> win_state \<Rightarrow> win_state option" where
  "win_main_loop ids [] s = None"
| "win_main_loop ids (io # ios) s =
     (case win_iteration ids io s of
        (True, s') \<Rightarrow> Some s'
      | (False, s') \<Rightarrow> win_main_loop ids ios s')"

text \<open>
  After the loop: the backend processes are counted, and only when there is one the flag
  \<^verbatim>\<open>shutdown\<close> is stored (a plain assignment) and then polled.
\<close>

definition win_after_loop :: "nat + win_proc list \<Rightarrow> win_state \<Rightarrow> win_state" where
  "win_after_loop snap s =
     (if snd (enumerate_processes backend_detect_handler 0 snap) = 0 then s
      else s\<lparr>wexchange := (wexchange s)\<lparr>wshutdown := 1\<rparr>\<rparr>)"

subsection \<open>Windows build: the entry point\<close>

definition EXITCODE_SUCCESS :: int where "EXITCODE_SUCCESS = 0"
definition EXITCODE_BAD_ARGS :: int where "EXITCODE_BAD_ARGS = 1"
definition EXITCODE_ERROR :: int where "EXITCODE_ERROR = 2"

datatype wcmd = Cmd_remove | Cmd_shutdown | Cmd_install | Cmd_start | Cmd_execute

text \<open>The exit codes of the service-manager operations, decided by the system.\<close>

record win_svc_results =
  module_name_ok :: bool
  r_remove :: int
  r_shutdown :: int
  r_install :: int
  r_start :: int
  r_execute :: int

definition ARG_PREFIX :: string where "ARG_PREFIX = ''--''"

text \<open>
  The loop of \<^verbatim>\<open>_tmain\<close> over \<^verbatim>\<open>argv[1..]\<close>: it runs while \<^verbatim>\<open>exitcode\<close> is zero.
  The result is the exit code and the operations that were run.
\<close>

fun tmain_args :: "win_svc_results \<Rightarrow> string list \<Rightarrow> int \<times> wcmd list" where
  "tmain_args r [] = (EXITCODE_SUCCESS, [])"
| "tmain_args r (cmd # rest) =
     (if take (length ARG_PREFIX) cmd = ARG_PREFIX then tmain_args r rest
      else if cmd = ''remove'' then
        (if r_remove r \<noteq> 0 then (r_remove r, [Cmd_remove])
         else (case tmain_args r rest of (e, cs) \<Rightarrow> (e, Cmd_remove # cs)))
      else if cmd = ''shutdown'' then
        (if r_shutdown r \<noteq> 0 then (r_shutdown r, [Cmd_shutdown])
         else (case tmain_args r rest of (e, cs) \<Rightarrow> (e, Cmd_shutdown # cs)))
      else if cmd = ''install'' then
        (if r_install r \<noteq> 0 then (r_install r, [Cmd_install])
         else (case tmain_args r rest of (e, cs) \<Rightarrow> (e, Cmd_install # cs)))
      else if cmd = ''start'' then
        (if r_start r \<noteq> 0 then (r_start r, [Cmd_start])
         else (case tmain_args r rest of (e, cs) \<Rightarrow> (e, Cmd_start # cs)))
      else (EXITCODE_BAD_ARGS, []))"

definition tmain :: "win_svc_results \<Rightarrow> string list \<Rightarrow> int \<times> wcmd list" where
  "tmain r argv =
     (if \<not> module_name_ok r then (EXITCODE_ERROR, [])
      else if 1 < length argv then tmain_args r (tl argv)
      else (r_execute r, [Cmd_execute]))"

subsection \<open>The client library\<close>

text \<open>
  \<^verbatim>\<open>launch_open\<close> of \<^verbatim>\<open>launch.c\<close>; both branches of the file poll the same way. One
  \<open>poll\<close> is what one evaluation of the loop condition reads from the shared memory,
  and the clock read in the loop body that follows.
\<close>

record poll =
  seen_size :: uint32
  seen_cycles :: uint32
  now :: int

datatype open_result = Handle | Null

definition EXCHG_TMOUT_SECS :: int where
  "EXCHG_TMOUT_SECS = 10"

text \<open>\<open>None\<close>: the observations are used up and the loop is still polling.\<close>

fun poll_loop :: "uint32 \<Rightarrow> uint32 \<Rightarrow> int \<Rightarrow> poll list \<Rightarrow> open_result option" where
  "poll_loop expected cycles0 tmout [] = None"
| "poll_loop expected cycles0 tmout (p # ps) =
     (if seen_size p \<noteq> expected \<and> cycles0 = seen_cycles p
      then (if now p > tmout then Some Null else poll_loop expected cycles0 tmout ps)
      else Some Handle)"

record open_env =
  oe_calloc_ok :: bool
  oe_attach_ok :: bool
  first_cycles :: uint32
  start_time :: int
  polls :: "poll list"

definition launch_open :: "uint32 \<Rightarrow> open_env \<Rightarrow> open_result option" where
  "launch_open expected e =
     (if \<not> oe_calloc_ok e then Some Null
      else if \<not> oe_attach_ok e then Some Null
      else poll_loop expected (first_cycles e) (start_time e + EXCHG_TMOUT_SECS) (polls e))"

section \<open>Concrete situations\<close>

text \<open>Inputs at which the theorems below are instantiated.\<close>

definition crowd :: "kinfo_proc list" where
  "crowd = map (\<lambda>i. \<lparr>p_uid = 501, p_pid = int i, p_ppid = 1, p_comm = SV_EXE\<rparr>) [1000..<1257]"

definition mac_ids0 :: mac_ident where
  "mac_ids0 = \<lparr>ownPid = 10, parentPid = 1, g_noKillPid = - 1\<rparr>"

text \<open>
  A process table in which the backend 50, the frontend 42 that asked for the kill and the
  service 10 itself carry Sighthound names; after the first pass the backend is gone.
\<close>

definition busy_os :: "nat \<Rightarrow> pass_obs" where
  "busy_os i =
     (if i = 0 then
        \<lparr>snapshot = Inr [\<lparr>p_uid = 0, p_pid = 1, p_ppid = 0, p_comm = ''launchd''\<rparr>,
                         \<lparr>p_uid = 501, p_pid = 50, p_ppid = 10, p_comm = ''Sighthound Video''\<rparr>,
                         \<lparr>p_uid = 501, p_pid = 42, p_ppid = 1, p_comm = ''Sighthound Video''\<rparr>,
                         \<lparr>p_uid = 501, p_pid = 10, p_ppid = 1, p_comm = ''shlaunch''\<rparr>],
         kill_denied = []\<rparr>
      else
        \<lparr>snapshot = Inr [\<lparr>p_uid = 0, p_pid = 1, p_ppid = 0, p_comm = ''launchd''\<rparr>,
                         \<lparr>p_uid = 501, p_pid = 42, p_ppid = 1, p_comm = ''Sighthound Video''\<rparr>,
                         \<lparr>p_uid = 501, p_pid = 10, p_ppid = 1, p_comm = ''shlaunch''\<rparr>],
         kill_denied = []\<rparr>)"

definition win_ids0 :: win_ident where
  "win_ids0 = \<lparr>w_ownPid = 100, w_parentPid = 77\<rparr>"

definition frontend_proc :: win_proc where
  "frontend_proc = \<lparr>wp_pid = 77, wp_open = True, wp_name = Some ''Sighthound Video.exe'',
     wp_terminate_ok = True, wp_close_err = 0\<rparr>"

definition newline :: string where
  "newline = [CHR 0x0A]"

text \<open>
  An iteration of the Mac loop in which the configuration permits the launch and
  \<^verbatim>\<open>fork\<close> fails, no other process writing meanwhile.
\<close>

definition io_fork_fails :: mac_io where
  "io_fork_fails =
     \<lparr>term_flag = False, exe_present = True, kill_obs = busy_os, during_kill = id,
      cfg_file = Some (''autostart=TRUE'' @ newline @ ''backend=TRUE'' @ newline),
      spawn = \<lparr>env_malloc_ok = True, fork_ret = - 1\<rparr>, during_sleep = id\<rparr>"

text \<open>The same with a configuration that forbids the backend.\<close>

definition io_denied :: mac_io where
  "io_denied =
     \<lparr>term_flag = False, exe_present = True, kill_obs = busy_os, during_kill = id,
      cfg_file = Some (''autostart=TRUE'' @ newline @ ''backend=FALSE'' @ newline),
      spawn = \<lparr>env_malloc_ok = True, fork_ret = 4711\<rparr>, during_sleep = id\<rparr>"

text \<open>The same with the executable of the service deleted.\<close>

definition io_exe_gone :: mac_io where
  "io_exe_gone = io_denied\<lparr>exe_present := False\<rparr>"

text \<open>A process table in which only the service itself carries a Sighthound name.\<close>

definition calm_os :: "nat \<Rightarrow> pass_obs" where
  "calm_os i =
     \<lparr>snapshot = Inr [\<lparr>p_uid = 0, p_pid = 1, p_ppid = 0, p_comm = ''launchd''\<rparr>,
                      \<lparr>p_uid = 501, p_pid = 10, p_ppid = 1, p_comm = ''shlaunch''\<rparr>],
      kill_denied = []\<rparr>"

text \<open>
  An uneventful iteration, an iteration at whose loop test the flag \<^verbatim>\<open>terminate\<close> is
  set, and a start of the Mac service in which every system call succeeds.
\<close>

definition io_idle :: mac_io where
  "io_idle = io_denied\<lparr>kill_obs := calm_os\<rparr>"

definition io_term :: mac_io where
  "io_term = io_idle\<lparr>term_flag := True\<rparr>"

definition mac_boot0 :: mac_boot where
  "mac_boot0 =
     \<lparr>activate_ret = 0, boot_kill_obs = calm_os, calloc_ok = True,
      shm = \<lparr>shmget_errno1 = 0, reset_err = 0, shmget_errno2 = 0, shmat_ok = True\<rparr>,
      utf8_ok = True,
      boot_cfg = Some (''autostart=TRUE'' @ newline @ ''backend=FALSE'' @ newline)\<rparr>"

text \<open>The service started with the right build tag, stopped at its second loop test.\<close>

definition quiet_run :: "(int \<times> action list \<times> (loop_end \<times> mac_state) option) option" where
  "quiet_run =
     mac_main ''r12345'' 10 1 [''/Library/shlaunch'', ''r12345''] mac_boot0 [io_idle, io_term]"

text \<open>The state of the Mac service after the client 42 has written the launch word.\<close>

definition s_request :: "int32 \<Rightarrow> mac_state" where
  "s_request w =
     \<lparr>exchange = exchange_zero\<lparr>xsize := of_nat sizeof_Exchange, processId := 10, cycles := 7,
                                launchProcessId := 42, launch := w\<rparr>,
      launch_v = w AND LAUNCH_MASK, kill_v = w AND LAUNCH_FLAG_KILL_FIRST, srcPid = 42,
      trace = []\<rparr>"

text \<open>
  The Windows service with a launch word in the shared memory, and an iteration during
  whose kill step another client writes the word \<open>0x10005\<close>.
\<close>

definition ws_request :: "int32 \<Rightarrow> win_state" where
  "ws_request w =
     \<lparr>wexchange = \<lparr>wsize = 548, wcycles = 7, wprocessId = 100, wstatus = 0,
                   wlaunchProcessId = 77, wlaunch = w, wshutdown = 0, wdataDir = ''C:''\<rparr>,
      wconfig = \<lparr>w_autoStart = False, w_backend = True\<rparr>,
      wtrace = []\<rparr>"

definition second_client :: "WExchange \<Rightarrow> WExchange" where
  "second_client ex = ex\<lparr>wlaunchProcessId := 78, wlaunch := 0x10005\<rparr>"

definition wio_quiet :: win_io where
  "wio_quiet =
     \<lparr>w_ini = \<lparr>ini_autostart = None, ini_backend = None\<rparr>, w_procs = Inr [],
      w_create_err = 0, w_exit_event = False, w_during_kill = id, w_during_wait = id,
      w_exe_present = True\<rparr>"

definition agent_proc :: win_proc where
  "agent_proc = \<lparr>wp_pid = 60, wp_open = True, wp_name = Some ''Sighthound Agent.exe'',
     wp_terminate_ok = True, wp_close_err = 0\<rparr>"

definition wio_second_client :: win_io where
  "wio_second_client = wio_quiet\<lparr>w_procs := Inr [agent_proc], w_during_kill := second_client\<rparr>"

definition wio_exe_gone :: win_io where
  "wio_exe_gone = wio_quiet\<lparr>w_exe_present := False\<rparr>"

definition win_all_ok :: win_svc_results where
  "win_all_ok = \<lparr>module_name_ok = True, r_remove = 0, r_shutdown = 0, r_install = 0,
     r_start = 0, r_execute = 0\<rparr>"

text \<open>
  A client opening a shared memory whose \<open>size\<close> field is already valid while the
  cycle counter stands still at 7.
\<close>

definition stalled_service :: open_env where
  "stalled_service =
     \<lparr>oe_calloc_ok = True, oe_attach_ok = True, first_cycles = 7, start_time = 1000,
      polls = [\<lparr>seen_size = of_nat sizeof_Exchange, seen_cycles = 7, now = 1000\<rparr>]\<rparr>"

section \<open>Properties\<close>

subsection \<open>Facts about the kill passes\<close>

definition sv_pids :: "kinfo_proc list \<Rightarrow> int list" where
  "sv_pids kips = map p_pid (filter (\<lambda>k. is_sv_process (p_comm k) \<noteq> 0) kips)"

lemma sv_pids_Nil: "sv_pids [] = []"
  by (simp add: sv_pids_def)

lemma sv_pids_Cons:
  "sv_pids (k # kips) =
     (if is_sv_process (p_comm k) \<noteq> 0 then p_pid k # sv_pids kips else sv_pids kips)"
  by (simp add: sv_pids_def)

lemma enum_loop_find:
  assumes "length (pids c) = MAX_PROCESSES" and "count c \<le> MAX_PROCESSES"
  shows "fst (enum_loop find_handler c kips)
           = (if MAX_PROCESSES < count c + length (sv_pids kips) then - 2 else 0)
         \<and> length (pids (snd (enum_loop find_handler c kips))) = MAX_PROCESSES
         \<and> count (snd (enum_loop find_handler c kips))
             = min MAX_PROCESSES (count c + length (sv_pids kips))
         \<and> take (count (snd (enum_loop find_handler c kips)))
                (pids (snd (enum_loop find_handler c kips)))
             = take (count c) (pids c) @ take (MAX_PROCESSES - count c) (sv_pids kips)"
  using assms
proof (induction kips arbitrary: c)
  case Nil
  then show ?case by (simp add: sv_pids_Nil)
next
  case (Cons k kips)
  show ?case
  proof (cases "is_sv_process (p_comm k) \<noteq> 0")
    case False
    then have step: "enum_loop find_handler c (k # kips) = enum_loop find_handler c kips"
      by (simp add: find_handler_def)
    from False have sv: "sv_pids (k # kips) = sv_pids kips"
      by (simp add: sv_pids_Cons)
    show ?thesis
      unfolding step sv using Cons.IH [OF Cons.prems] .
  next
    case True
    then have sv: "sv_pids (k # kips) = p_pid k # sv_pids kips"
      by (simp add: sv_pids_Cons)
    show ?thesis
    proof (cases "count c < MAX_PROCESSES")
      case False
      with Cons.prems have full: "count c = MAX_PROCESSES" by simp
      from True False have step: "enum_loop find_handler c (k # kips) = (- 2, c)"
        by (simp add: find_handler_def)
      show ?thesis
        unfolding step sv using Cons.prems full by simp
    next
      case lt: True
      define c' where "c' = c\<lparr>pids := (pids c)[count c := p_pid k], count := count c + 1\<rparr>"
      from True lt have step:
        "enum_loop find_handler c (k # kips) = enum_loop find_handler c' kips"
        by (simp add: find_handler_def c'_def)
      have len: "length (pids c') = MAX_PROCESSES"
        using Cons.prems by (simp add: c'_def)
      have cnt: "count c' \<le> MAX_PROCESSES"
        using lt by (simp add: c'_def)
      have tk: "take (count c') (pids c') = take (count c) (pids c) @ [p_pid k]"
        using lt Cons.prems by (simp add: c'_def take_Suc_conv_app_nth)
      have room: "MAX_PROCESSES - count c = Suc (MAX_PROCESSES - count c')"
        using lt by (simp add: c'_def)
      have rest: "take (MAX_PROCESSES - count c) (p_pid k # sv_pids kips)
                    = p_pid k # take (MAX_PROCESSES - count c') (sv_pids kips)"
        unfolding room by simp
      have cc: "count c' = count c + 1"
        by (simp add: c'_def)
      have app: "take (count c') (pids c') @ take (MAX_PROCESSES - count c') (sv_pids kips)
                   = take (count c) (pids c)
                       @ take (MAX_PROCESSES - count c) (p_pid k # sv_pids kips)"
        unfolding tk rest by simp
      have sums: "count c' + length (sv_pids kips) = count c + length (p_pid k # sv_pids kips)"
        unfolding cc by simp
      show ?thesis
        unfolding step sv using Cons.IH [OF len cnt] unfolding app sums .
    qed
  qed
qed

lemma kill_each_acc:
  "kill_each ids nk d xs (k, r, s) =
     (k + int (length (filter (\<lambda>p. \<not> (ownPid ids = p \<or> parentPid ids = p \<or> g_noKillPid ids = p \<or> nk = p) \<and> p \<notin> set d) xs)),
      r - int (length (filter (\<lambda>p. ownPid ids = p \<or> parentPid ids = p \<or> g_noKillPid ids = p \<or> nk = p) xs)),
      s @ filter (\<lambda>p. \<not> (ownPid ids = p \<or> parentPid ids = p \<or> g_noKillPid ids = p \<or> nk = p)) xs)"
  by (induction xs arbitrary: k r s) auto

lemma enum_find_zero:
  assumes ec: "enum_processes find_handler fpctx_zero (Inr kips) = (e, c)"
  shows "e = (if MAX_PROCESSES < length (sv_pids kips) then - 2 else 0)"
    and "count c = min MAX_PROCESSES (length (sv_pids kips))"
    and "take (min MAX_PROCESSES (length (sv_pids kips))) (pids c)
           = take MAX_PROCESSES (sv_pids kips)"
proof -
  have pre: "length (pids fpctx_zero) = MAX_PROCESSES" "count fpctx_zero \<le> MAX_PROCESSES"
    by (simp_all add: fpctx_zero_def)
  have z: "count fpctx_zero = 0"
    by (simp add: fpctx_zero_def)
  from ec have el: "enum_loop find_handler fpctx_zero kips = (e, c)"
    by (simp add: enum_processes_def)
  note L = enum_loop_find [OF pre, of kips, unfolded el fst_conv snd_conv z]
  from L show "e = (if MAX_PROCESSES < length (sv_pids kips) then - 2 else 0)"
    by simp
  from L show cnt: "count c = min MAX_PROCESSES (length (sv_pids kips))"
    by simp
  have "take (count c) (pids c)
          = take 0 (pids fpctx_zero) @ take (MAX_PROCESSES - 0) (sv_pids kips)"
    using L by blast
  then have "take (count c) (pids c) = take MAX_PROCESSES (sv_pids kips)"
    by simp
  then show "take (min MAX_PROCESSES (length (sv_pids kips))) (pids c)
               = take MAX_PROCESSES (sv_pids kips)"
    unfolding cnt .
qed

lemma kill_old_processes_Inr:
  "kill_old_processes ids nk \<lparr>snapshot = Inr kips, kill_denied = d\<rparr> =
     \<lparr>kp_err = (if MAX_PROCESSES < length (sv_pids kips) then - 2 else 0),
      kp_found = sort (take MAX_PROCESSES (sv_pids kips)),
      kp_killed = int (length (filter (\<lambda>p. \<not> (ownPid ids = p \<or> parentPid ids = p \<or> g_noKillPid ids = p \<or> nk = p) \<and> p \<notin> set d) (sort (take MAX_PROCESSES (sv_pids kips))))),
      kp_result = int (min MAX_PROCESSES (length (sv_pids kips))) - int (length (filter (\<lambda>p. ownPid ids = p \<or> parentPid ids = p \<or> g_noKillPid ids = p \<or> nk = p) (sort (take MAX_PROCESSES (sv_pids kips))))),
      kp_signaled = filter (\<lambda>p. \<not> (ownPid ids = p \<or> parentPid ids = p \<or> g_noKillPid ids = p \<or> nk = p)) (sort (take MAX_PROCESSES (sv_pids kips)))\<rparr>"
proof -
  obtain e c where ec: "enum_processes find_handler fpctx_zero (Inr kips) = (e, c)"
    by (cases "enum_processes find_handler fpctx_zero (Inr kips)")
  note f = enum_find_zero [OF ec]
  show ?thesis
    by (simp add: kill_old_processes_def ec kill_each_acc f Let_def)
qed

lemma kill_old_processes_Inl:
  "kill_old_processes ids nk \<lparr>snapshot = Inl e, kill_denied = d\<rparr> =
     \<lparr>kp_err = e, kp_found = [], kp_killed = 0, kp_result = 0, kp_signaled = []\<rparr>"
  by (simp add: kill_old_processes_def enum_processes_def fpctx_zero_def)

lemma kp_signaled_excl:
  "p \<in> set (kp_signaled (kill_old_processes ids nk obs)) \<Longrightarrow>
     p \<noteq> ownPid ids \<and> p \<noteq> parentPid ids \<and> p \<noteq> g_noKillPid ids \<and> p \<noteq> nk"
  by (auto simp: kill_old_processes_def kill_each_acc Let_def split: prod.splits)

lemma kill_wait_loop_excl:
  "p \<in> set (snd (kill_wait_loop ids nk os i r)) \<Longrightarrow>
     p \<noteq> ownPid ids \<and> p \<noteq> parentPid ids \<and> p \<noteq> g_noKillPid ids \<and> p \<noteq> nk"
proof (induction r arbitrary: i)
  case 0
  then show ?case
    using kp_signaled_excl [of p ids nk "os i"] by (simp add: Let_def)
next
  case (Suc r)
  show ?case
  proof (cases "p \<in> set (kp_signaled (kill_old_processes ids nk (os i)))")
    case True
    then show ?thesis by (rule kp_signaled_excl)
  next
    case False
    with Suc.prems have "p \<in> set (snd (kill_wait_loop ids nk os (Suc i) r))"
      by (auto simp: Let_def split: if_splits prod.splits)
    then show ?thesis by (rule Suc.IH)
  qed
qed

lemma kill_candidates_noKillPid:
  "noKillPid (fst (kill_candidates cs p exe (k, h))) = noKillPid k"
  by (induction cs arbitrary: k h) simp_all

lemma kill_candidates_calls:
  "x \<in> set (terminate_calls (fst (kill_candidates cs p exe (k, h)))) \<Longrightarrow>
     x = wp_pid p \<or> x \<in> set (terminate_calls k)"
proof (induction cs arbitrary: k h)
  case Nil
  then show ?case by simp
next
  case (Cons c cs)
  show ?case
  proof (cases "tcsicmp_eq c exe")
    case False
    with Cons.prems have "x \<in> set (terminate_calls (fst (kill_candidates cs p exe (k, h))))"
      by simp
    then show ?thesis by (rule Cons.IH)
  next
    case True
    show ?thesis
    proof (cases "h \<and> wp_terminate_ok p")
      case yes: True
      with True Cons.prems have
        "x \<in> set (terminate_calls (fst (kill_candidates cs p exe
           (k\<lparr>terminatedProcesses := terminatedProcesses k @ [wp_pid p],
              kills := kills k + 1,
              terminate_calls := terminate_calls k @ [wp_pid p]\<rparr>, False))))"
        by simp
      from Cons.IH [OF this] show ?thesis by auto
    next
      case no: False
      with True Cons.prems have
        "x \<in> set (terminate_calls (fst (kill_candidates cs p exe
           (k\<lparr>errors := errors k + 1,
              terminate_calls := terminate_calls k @ (if h then [wp_pid p] else [])\<rparr>, h))))"
        by simp
      from Cons.IH [OF this] show ?thesis by (auto split: if_splits)
    qed
  qed
qed

lemma kill_handler_inv:
  assumes "kill_handler cur k p = (b, k', h')"
  shows "noKillPid k' = noKillPid k"
    and "q \<in> set (terminate_calls k') \<Longrightarrow>
           q \<in> set (terminate_calls k) \<or> (q = wp_pid p \<and> q \<noteq> cur \<and> q \<noteq> noKillPid k)"
proof -
  define exe where "exe = (case wp_name p of None \<Rightarrow> [] | Some exe \<Rightarrow> exe)"
  show "noKillPid k' = noKillPid k"
  proof (cases "wp_pid p = cur \<or> wp_pid p = noKillPid k")
    case True
    with assms show ?thesis by (simp add: kill_handler_def)
  next
    case False
    with assms have "k' = fst (kill_candidates (candidates k) p exe (k, True))"
      by (auto simp: kill_handler_def exe_def split: prod.splits)
    then show ?thesis by (simp add: kill_candidates_noKillPid)
  qed
  assume q: "q \<in> set (terminate_calls k')"
  show "q \<in> set (terminate_calls k) \<or> (q = wp_pid p \<and> q \<noteq> cur \<and> q \<noteq> noKillPid k)"
  proof (cases "wp_pid p = cur \<or> wp_pid p = noKillPid k")
    case True
    with assms q show ?thesis by (simp add: kill_handler_def)
  next
    case False
    with assms have "k' = fst (kill_candidates (candidates k) p exe (k, True))"
      by (auto simp: kill_handler_def exe_def split: prod.splits)
    with q have "q = wp_pid p \<or> q \<in> set (terminate_calls k)"
      using kill_candidates_calls by blast
    with False show ?thesis by auto
  qed
qed

lemma win_enum_loop_excl:
  assumes "cur \<notin> set (terminate_calls k)" and "noKillPid k \<notin> set (terminate_calls k)"
  shows "cur \<notin> set (terminate_calls (snd (win_enum_loop (kill_handler cur) k n ps)))
         \<and> noKillPid k \<notin> set (terminate_calls (snd (win_enum_loop (kill_handler cur) k n ps)))"
  using assms
proof (induction ps arbitrary: k n)
  case Nil
  then show ?case by simp
next
  case (Cons p ps)
  obtain b k' h' where kh: "kill_handler cur k p = (b, k', h')"
    by (cases "kill_handler cur k p")
  note inv = kill_handler_inv [OF kh]
  have a: "cur \<notin> set (terminate_calls k')"
    using inv(2) [of cur] Cons.prems by auto
  have b: "noKillPid k' \<notin> set (terminate_calls k')"
    using inv(2) [of "noKillPid k"] inv(1) Cons.prems by auto
  note IH = Cons.IH [OF a b, unfolded inv(1)]
  show ?case
    using Cons.IH [OF Cons.prems] IH a b inv(1) Cons.prems
    by (auto simp: kh split: option.splits)
qed

lemma kill_processes_excl:
  "w_ownPid ids \<notin> set (terminate_calls (kill_processes ids cands nokill snap))
   \<and> nokill \<notin> set (terminate_calls (kill_processes ids cands nokill snap))"
proof (cases snap)
  case (Inl e)
  then show ?thesis by (simp add: kill_processes_def enumerate_processes_def)
next
  case (Inr ps)
  then show ?thesis
    using win_enum_loop_excl [of "w_ownPid ids"
        "\<lparr>kills = 0, errors = 0, noKillPid = nokill, candidates = cands,
          terminatedProcesses = [], terminate_calls = []\<rparr>" 0 ps]
    by (simp add: kill_processes_def enumerate_processes_def)
qed

lemma sv_pids_all_sv:
  "sv_pids (map (\<lambda>i. \<lparr>p_uid = u, p_pid = f i, p_ppid = pp, p_comm = SV_EXE\<rparr>) xs) = map f xs"
  by (induction xs)
     (simp_all add: sv_pids_def is_sv_process_def SIGHTHOUND_PROCESS_NAMES_def)

lemma sv_pids_crowd: "sv_pids crowd = map int [1000..<1257]"
  unfolding crowd_def by (rule sv_pids_all_sv)

subsection \<open>Exclusion from the kill\<close>

lemma kill_step_trace:
  "trace (kill_step ids io s)
     = trace s @ (if kill_v s \<noteq> 0
                  then map Kill (snd (kill_old_processes_and_wait ids (sint (srcPid s)) (kill_obs io)))
                  else [])"
  by (simp add: kill_step_def split: prod.splits)

lemma launch_step_kills:
  "Kill p \<in> set (trace (snd (launch_step io s))) \<Longrightarrow> Kill p \<in> set (trace s)"
  by (auto simp: launch_step_def Let_def launch_backend_def split: if_splits)

lemma mac_iteration_kills:
  assumes "Kill p \<in> set (trace (snd (mac_iteration ids io s)))"
  shows "Kill p \<in> set (trace s)
         \<or> (p \<noteq> ownPid ids \<and> p \<noteq> parentPid ids \<and> p \<noteq> g_noKillPid ids \<and> p \<noteq> sint (srcPid s))"
proof -
  define s1 where "s1 = s\<lparr>exchange := (exchange s)\<lparr>cycles := cycles (exchange s) + 1\<rparr>\<rparr>"
  have t1: "trace s1 = trace s" and p1: "srcPid s1 = srcPid s" and k1: "kill_v s1 = kill_v s"
    by (simp_all add: s1_def)
  show ?thesis
  proof (cases "exe_present io")
    case False
    with assms show ?thesis by (simp add: mac_iteration_def Let_def)
  next
    case True
    obtain e s3 where ls: "launch_step io (kill_step ids io s1) = (e, s3)"
      by (cases "launch_step io (kill_step ids io s1)")
    from assms True ls have "Kill p \<in> set (trace s3)"
      by (cases e) (simp_all add: mac_iteration_def Let_def s1_def [symmetric] reread_step_def)
    with ls have "Kill p \<in> set (trace (kill_step ids io s1))"
      using launch_step_kills [of p io "kill_step ids io s1"] by simp
    then have "Kill p \<in> set (trace s)
               \<or> p \<in> set (snd (kill_old_processes_and_wait ids (sint (srcPid s)) (kill_obs io)))"
      by (auto simp: kill_step_trace t1 p1 k1 split: if_splits)
    then show ?thesis
      using kill_wait_loop_excl [of p ids "sint (srcPid s)" "kill_obs io" 0 KILL_WAIT_RETRIES]
      unfolding kill_old_processes_and_wait_def by blast
  qed
qed

lemma win_iteration_terminates:
  assumes "Terminate p \<in> set (wtrace (snd (win_iteration wids wio ws)))"
  shows "Terminate p \<in> set (wtrace ws)
         \<or> (p \<noteq> w_ownPid wids \<and> p \<noteq> wlaunchProcessId (wexchange ws))"
proof -
  from assms have "Terminate p \<in> set (wtrace ws)
      \<or> p \<in> set (terminate_calls (kill_processes wids KILL_CANDIDATES
                      (wlaunchProcessId (wexchange ws)) (w_procs wio)))"
    by (auto simp: win_iteration_def win_body_def Let_def split: if_splits)
  then show ?thesis
    using kill_processes_excl [of wids KILL_CANDIDATES "wlaunchProcessId (wexchange ws)" "w_procs wio"]
    by blast
qed

text \<open>
  Claim C3, as the two builds implement it. On the Mac, no pass of
  \<^verbatim>\<open>kill_old_processes_and_wait\<close> calls \<^verbatim>\<open>kill\<close> on the service's own PID, on
  its parent's PID, on the global \<^verbatim>\<open>_noKillPid\<close> or on the PID passed as argument
  (in the loop, the value of \<^verbatim>\<open>launchProcessId\<close> read into \<^verbatim>\<open>srcPid\<close> for this
  iteration), so an iteration adds no such call to the trace. On Windows,
  \<^verbatim>\<open>kill_processes\<close> never passes the handle of the current process or of the process
  with the no-kill PID to \<^verbatim>\<open>TerminateProcess\<close>, in the loop the PID in
  \<^verbatim>\<open>launchProcessId\<close>; the parent of the service is not looked at.
\<close>

theorem kill_exclusion:
  "ownPid ids \<notin> set (snd (kill_old_processes_and_wait ids nk os))
   \<and> parentPid ids \<notin> set (snd (kill_old_processes_and_wait ids nk os))
   \<and> g_noKillPid ids \<notin> set (snd (kill_old_processes_and_wait ids nk os))
   \<and> nk \<notin> set (snd (kill_old_processes_and_wait ids nk os))
   \<and> (Kill p \<in> set (trace (snd (mac_iteration ids io s))) \<longrightarrow>
        Kill p \<in> set (trace s)
        \<or> (p \<noteq> ownPid ids \<and> p \<noteq> parentPid ids \<and> p \<noteq> g_noKillPid ids
            \<and> p \<noteq> sint (srcPid s)))
   \<and> w_ownPid wids \<notin> set (terminate_calls (kill_processes wids cands nokill snap))
   \<and> nokill \<notin> set (terminate_calls (kill_processes wids cands nokill snap))
   \<and> (Terminate q \<in> set (wtrace (snd (win_iteration wids wio ws))) \<longrightarrow>
        Terminate q \<in> set (wtrace ws)
        \<or> (q \<noteq> w_ownPid wids \<and> q \<noteq> wlaunchProcessId (wexchange ws)))"
  using kill_wait_loop_excl [of _ ids nk os 0 KILL_WAIT_RETRIES]
        kill_processes_excl [of wids cands nokill snap]
        mac_iteration_kills [of p ids io s]
        win_iteration_terminates [of q wids wio ws]
  unfolding kill_old_processes_and_wait_def by blast

text \<open>
  At the process table \<open>busy_os\<close>, with the frontend 42 as the source of the command:
  only the backend 50 is signalled. On Windows the backend 60 is terminated.
\<close>

theorem kill_exclusion_witness:
  "kill_old_processes_and_wait mac_ids0 42 busy_os = (RET_SUCCESS, [50])
   \<and> 10 \<notin> set (snd (kill_old_processes_and_wait mac_ids0 42 busy_os))
   \<and> 1 \<notin> set (snd (kill_old_processes_and_wait mac_ids0 42 busy_os))
   \<and> 42 \<notin> set (snd (kill_old_processes_and_wait mac_ids0 42 busy_os))
   \<and> sint (srcPid (s_request 0x10005)) = 42
   \<and> Kill 50 \<in> set (trace (snd (mac_iteration mac_ids0 io_denied (s_request 0x10005))))
   \<and> Kill 42 \<notin> set (trace (snd (mac_iteration mac_ids0 io_denied (s_request 0x10005))))
   \<and> Terminate 60
        \<in> set (wtrace (snd (win_iteration win_ids0 wio_second_client (ws_request 0x10001))))"
proof -
  note T = kill_exclusion [where ids = mac_ids0 and nk = 42 and os = busy_os
      and io = io_denied and s = "s_request 0x10005" and p = 42
      and wids = win_ids0 and wio = wio_second_client and ws = "ws_request 0x10001" and q = 60]
  have a: "kill_old_processes_and_wait mac_ids0 42 busy_os = (RET_SUCCESS, [50])"
    by code_simp
  have b: "sint (srcPid (s_request 0x10005)) = 42"
    by (simp add: s_request_def)
  have c: "trace (s_request 0x10005) = []"
    by (simp add: s_request_def)
  have d: "Kill 50 \<in> set (trace (snd (mac_iteration mac_ids0 io_denied (s_request 0x10005))))"
    by code_simp
  have e: "Terminate 60
        \<in> set (wtrace (snd (win_iteration win_ids0 wio_second_client (ws_request 0x10001))))"
    by code_simp
  from T b c have "Kill 42 \<notin> set (trace (snd (mac_iteration mac_ids0 io_denied (s_request 0x10005))))"
    by auto
  with T a b d e show ?thesis
    by (simp add: mac_ids0_def)
qed

text \<open>
  The claim as stated fails on Windows for the parent: when a frontend
  \<^verbatim>\<open>Sighthound Video.exe\<close> with PID 77 runs \<^verbatim>\<open>shlaunch.exe shutdown\<close>, the new
  process 100 has parent 77, and \<^verbatim>\<open>service_shutdown\<close> calls
  \<^verbatim>\<open>kill_processes(KILL_CANDIDATES_ALL, 0)\<close>, which terminates 77.
\<close>

theorem kill_parent_counterexample:
  "w_parentPid win_ids0
     \<in> set (terminate_calls (kill_processes win_ids0 KILL_CANDIDATES_ALL 0 (Inr [frontend_proc])))"
  by code_simp

subsection \<open>The cap on the processes of one pass\<close>

text \<open>
  Claim C10. One pass of the Mac \<^verbatim>\<open>kill_old_processes\<close> over a process snapshot
  records the first 256 PIDs with a Sighthound name, in ascending order, and no more; when
  there are more than 256 the enumeration ends with the error \<open>- 2\<close>; only recorded PIDs
  are signalled, and the count returned is at most 256.
\<close>

theorem kill_pass_cap:
  "kp_found (kill_old_processes ids nk \<lparr>snapshot = Inr kips, kill_denied = d\<rparr>)
     = sort (take MAX_PROCESSES (sv_pids kips))
   \<and> length (kp_found (kill_old_processes ids nk \<lparr>snapshot = Inr kips, kill_denied = d\<rparr>)) \<le> 256
   \<and> kp_err (kill_old_processes ids nk \<lparr>snapshot = Inr kips, kill_denied = d\<rparr>)
       = (if 256 < length (sv_pids kips) then - 2 else 0)
   \<and> set (kp_signaled (kill_old_processes ids nk \<lparr>snapshot = Inr kips, kill_denied = d\<rparr>))
       \<subseteq> set (take 256 (sv_pids kips))
   \<and> kp_result (kill_old_processes ids nk \<lparr>snapshot = Inr kips, kill_denied = d\<rparr>) \<le> 256"
  unfolding kill_old_processes_Inr by (auto simp: MAX_PROCESSES_def)

text \<open>
  With 257 processes named \<^verbatim>\<open>Sighthound Video\<close>, PIDs 1000 to 1256: the enumeration
  reports \<open>- 2\<close> and the last one is not signalled.
\<close>

theorem kill_pass_cap_witness:
  "kp_err (kill_old_processes mac_ids0 0 \<lparr>snapshot = Inr crowd, kill_denied = []\<rparr>) = - 2
   \<and> length (sv_pids crowd) = 257
   \<and> 1256 \<in> set (sv_pids crowd)
   \<and> 1256 \<notin> set (kp_signaled
                     (kill_old_processes mac_ids0 0 \<lparr>snapshot = Inr crowd, kill_denied = []\<rparr>))"
proof -
  have len: "length (sv_pids crowd) = 257"
    unfolding sv_pids_crowd by (simp del: upt_rec_numeral)
  have mem: "(1256::int) \<in> set (sv_pids crowd)"
    unfolding sv_pids_crowd by (simp del: upt_rec_numeral)
  have tk: "take 256 (sv_pids crowd) = map int [1000..<1256]"
    unfolding sv_pids_crowd by (simp add: take_map del: upt_rec_numeral)
  have out: "(1256::int) \<notin> set (take 256 (sv_pids crowd))"
    unfolding tk by (auto simp del: upt_rec_numeral)
  note T = kill_pass_cap [of mac_ids0 0 crowd "[]"]
  from T len
  have "kp_err (kill_old_processes mac_ids0 0 \<lparr>snapshot = Inr crowd, kill_denied = []\<rparr>) = - 2"
    by simp
  moreover from T out
  have "1256 \<notin> set (kp_signaled
                     (kill_old_processes mac_ids0 0 \<lparr>snapshot = Inr crowd, kill_denied = []\<rparr>))"
    by blast
  ultimately show ?thesis using len mem by simp
qed

subsection \<open>The status written after a launch\<close>

lemma launch_backend_return: "lb_return (launch_backend e) = RET_SUCCESS"
  by (simp add: launch_backend_def)

lemma launch_step_status:
  "launch_v s \<noteq> 0 \<Longrightarrow> backend (snd (cfg_load (cfg_file io))) \<Longrightarrow> fork_ret (spawn io) \<noteq> 0 \<Longrightarrow>
     status (exchange (snd (launch_step io s))) = 1"
  by (simp add: launch_step_def Let_def launch_backend_def RET_SUCCESS_def
        sync_fetch_and_and_launch_def sync_swap_status_def)

text \<open>
  Claim C1 says that after a launch command which the configuration permits, the field
  \<^verbatim>\<open>status\<close> is 1 when the spawn call succeeded and 0 when it failed. The Mac
  \<^verbatim>\<open>launch_backend\<close> computes \<^verbatim>\<open>result\<close> and returns \<^verbatim>\<open>RET_SUCCESS\<close>
  instead. In the iteration below the configuration permits the backend and \<^verbatim>\<open>fork\<close>
  returns \<open>- 1\<close>: the local \<^verbatim>\<open>result\<close> is \<^verbatim>\<open>RET_ERROR\<close>, the function
  returns \<^verbatim>\<open>RET_SUCCESS\<close>, and the loop writes 1 into \<^verbatim>\<open>status\<close>.
\<close>

theorem launch_status_after_failed_fork:
  "backend (snd (cfg_load (cfg_file io_fork_fails)))
   \<and> lb_result (launch_backend (spawn io_fork_fails)) = RET_ERROR
   \<and> lb_return (launch_backend (spawn io_fork_fails)) = RET_SUCCESS
   \<and> fst (mac_iteration mac_ids0 io_fork_fails (s_request 1)) = None
   \<and> trace (snd (mac_iteration mac_ids0 io_fork_fails (s_request 1))) = [Fork]
   \<and> status (exchange (snd (mac_iteration mac_ids0 io_fork_fails (s_request 1)))) = 1"
  by code_simp

subsection \<open>Readiness seen by the client\<close>

lemma poll_loop_size_suffices:
  "seen_size p = expected \<Longrightarrow> poll_loop expected cycles0 tmout (p # ps) = Some Handle"
  by simp

lemma poll_loop_cycles_suffice:
  "seen_cycles p \<noteq> cycles0 \<Longrightarrow> poll_loop expected cycles0 tmout (p # ps) = Some Handle"
  by auto

text \<open>
  Claim C2 says that \<^verbatim>\<open>launch_open\<close> returns a handle only after it has seen the
  expected size and a cycle counter that moved. The loop of \<^verbatim>\<open>launch_open\<close> goes on
  only while the size is wrong and the counter stands still, so either observation alone
  ends it. Below the size is right at the first poll and the counter still holds the value
  read before the loop: a handle is returned.
\<close>

theorem open_with_stalled_cycles:
  "launch_open (of_nat sizeof_Exchange) stalled_service = Some Handle
   \<and> seen_cycles (hd (polls stalled_service)) = first_cycles stalled_service"
  by code_simp

subsection \<open>Consuming the launch word\<close>

lemma kill_step_fields:
  "launch_v (kill_step ids io s) = launch_v s"
  "kill_v (kill_step ids io s) = kill_v s"
  "exchange (kill_step ids io s)
     = (if kill_v s \<noteq> 0
        then sync_fetch_and_and_launch (during_kill io (exchange s)) (NOT LAUNCH_FLAG_KILL_FIRST)
        else exchange s)"
  by (simp_all add: kill_step_def split: prod.splits)

lemma launch_step_exchange:
  "fst (launch_step io s) = None \<Longrightarrow>
     launch (exchange (snd (launch_step io s)))
       = (if launch_v s \<noteq> 0 then launch (exchange s) AND NOT LAUNCH_MASK else launch (exchange s))"
  by (simp add: launch_step_def Let_def sync_fetch_and_and_launch_def sync_swap_status_def
           split: if_splits)

lemma launch_step_continues:
  "fork_ret (spawn io) \<noteq> 0 \<Longrightarrow> fst (launch_step io s) = None"
  by (simp add: launch_step_def Let_def launch_backend_def)

text \<open>
  Claim C4, as the two builds implement it. On the Mac the kill step, when the kill flag
  was observed, ends with an AND-NOT of \<^verbatim>\<open>LAUNCH_FLAG_KILL_FIRST\<close> on the word that is
  in the shared memory then, and the launch step, when launch bits were observed, ends with
  an AND-NOT of \<^verbatim>\<open>LAUNCH_MASK\<close>, whatever the configuration says; without other
  writers an iteration leaves the word with exactly the handled bits cleared. On Windows
  the whole word is swapped to zero at the start of the iteration, before either step:
  after the body it is zero unless another process wrote it during the kill.
\<close>

theorem launch_word_consumed:
  "launch (exchange (kill_step ids io s))
     = (if kill_v s \<noteq> 0
        then launch (during_kill io (exchange s)) AND NOT LAUNCH_FLAG_KILL_FIRST
        else launch (exchange s))
   \<and> (fst (launch_step io s) = None \<longrightarrow>
        launch (exchange (snd (launch_step io s)))
          = (if launch_v s \<noteq> 0 then launch (exchange s) AND NOT LAUNCH_MASK
             else launch (exchange s)))
   \<and> (exe_present io \<and> fork_ret (spawn io) \<noteq> 0 \<and> during_kill io = id \<and> during_sleep io = id \<longrightarrow>
        launch (exchange (snd (mac_iteration ids io s)))
          = (launch (exchange s)
               AND NOT (if kill_v s \<noteq> 0 then LAUNCH_FLAG_KILL_FIRST else 0))
              AND NOT (if launch_v s \<noteq> 0 then LAUNCH_MASK else 0))
   \<and> wlaunch (wexchange (win_body wids wio ws))
       = (if wlaunch (wexchange ws) \<noteq> 0 \<and> LAUNCH_FLAG_KILL_FIRST AND wlaunch (wexchange ws) \<noteq> 0
          then wlaunch (w_during_kill wio
                 ((wexchange ws)\<lparr>wlaunch := 0, wcycles := wcycles (wexchange ws) + 1\<rparr>))
          else 0)"
proof (intro conjI impI)
  show "launch (exchange (kill_step ids io s))
     = (if kill_v s \<noteq> 0
        then launch (during_kill io (exchange s)) AND NOT LAUNCH_FLAG_KILL_FIRST
        else launch (exchange s))"
    by (simp add: kill_step_fields sync_fetch_and_and_launch_def)
next
  assume "fst (launch_step io s) = None"
  then show "launch (exchange (snd (launch_step io s)))
          = (if launch_v s \<noteq> 0 then launch (exchange s) AND NOT LAUNCH_MASK
             else launch (exchange s))"
    by (rule launch_step_exchange)
next
  assume a: "exe_present io \<and> fork_ret (spawn io) \<noteq> 0 \<and> during_kill io = id \<and> during_sleep io = id"
  define s1 where "s1 = s\<lparr>exchange := (exchange s)\<lparr>cycles := cycles (exchange s) + 1\<rparr>\<rparr>"
  define s2 where "s2 = kill_step ids io s1"
  have c: "fst (launch_step io s2) = None"
    using a by (simp add: launch_step_continues)
  have it: "mac_iteration ids io s = (None, reread_step io (snd (launch_step io s2)))"
    using a c by (cases "launch_step io s2") (simp add: mac_iteration_def s1_def s2_def Let_def)
  have l3: "launch (exchange (snd (launch_step io s2)))
              = (if launch_v s2 \<noteq> 0 then launch (exchange s2) AND NOT LAUNCH_MASK
                 else launch (exchange s2))"
    using c by (rule launch_step_exchange)
  have l2: "launch (exchange s2)
              = (if kill_v s \<noteq> 0 then launch (exchange s) AND NOT LAUNCH_FLAG_KILL_FIRST
                 else launch (exchange s))"
    using a by (simp add: s2_def s1_def kill_step_fields sync_fetch_and_and_launch_def)
  have v2: "launch_v s2 = launch_v s"
    by (simp add: s2_def s1_def kill_step_fields)
  show "launch (exchange (snd (mac_iteration ids io s)))
          = (launch (exchange s)
               AND NOT (if kill_v s \<noteq> 0 then LAUNCH_FLAG_KILL_FIRST else 0))
              AND NOT (if launch_v s \<noteq> 0 then LAUNCH_MASK else 0)"
    using a by (simp add: it reread_step_def Let_def l3 l2 v2)
next
  show "wlaunch (wexchange (win_body wids wio ws))
       = (if wlaunch (wexchange ws) \<noteq> 0 \<and> LAUNCH_FLAG_KILL_FIRST AND wlaunch (wexchange ws) \<noteq> 0
          then wlaunch (w_during_kill wio
                 ((wexchange ws)\<lparr>wlaunch := 0, wcycles := wcycles (wexchange ws) + 1\<rparr>))
          else 0)"
    by (simp add: win_body_def Let_def)
qed

text \<open>
  A denied launch on the Mac: the word \<open>0x10005\<close> is consumed, the old backend is
  killed and nothing is forked.
\<close>

theorem launch_word_consumed_witness:
  "exe_present io_denied \<and> fork_ret (spawn io_denied) \<noteq> 0
   \<and> during_kill io_denied = id \<and> during_sleep io_denied = id
   \<and> \<not> backend (snd (cfg_load (cfg_file io_denied)))
   \<and> launch (exchange (s_request 0x10005)) = 0x10005
   \<and> launch (exchange (snd (mac_iteration mac_ids0 io_denied (s_request 0x10005)))) = 0
   \<and> trace (snd (mac_iteration mac_ids0 io_denied (s_request 0x10005))) = [Kill 50]"
proof -
  have h: "exe_present io_denied \<and> fork_ret (spawn io_denied) \<noteq> 0
           \<and> during_kill io_denied = id \<and> during_sleep io_denied = id"
    by (simp add: io_denied_def)
  have c: "\<not> backend (snd (cfg_load (cfg_file io_denied)))"
    by code_simp
  have w: "launch (exchange (s_request 0x10005)) = 0x10005"
    "kill_v (s_request 0x10005) \<noteq> 0" "launch_v (s_request 0x10005) \<noteq> 0"
    by code_simp+
  from launch_word_consumed [of mac_ids0 io_denied "s_request 0x10005"] h
  have "launch (exchange (snd (mac_iteration mac_ids0 io_denied (s_request 0x10005))))
          = (launch (exchange (s_request 0x10005))
               AND NOT (if kill_v (s_request 0x10005) \<noteq> 0 then LAUNCH_FLAG_KILL_FIRST else 0))
              AND NOT (if launch_v (s_request 0x10005) \<noteq> 0 then LAUNCH_MASK else 0)"
    by blast
  then have z: "launch (exchange (snd (mac_iteration mac_ids0 io_denied (s_request 0x10005)))) = 0"
    using w by (simp add: LAUNCH_FLAG_KILL_FIRST_def LAUNCH_MASK_def)
  have t: "trace (snd (mac_iteration mac_ids0 io_denied (s_request 0x10005))) = [Kill 50]"
    by code_simp
  show ?thesis using h c w(1) z t by simp
qed

text \<open>
  On Windows the bits are not cleared after the steps: the service acts on the word
  \<open>0x10001\<close>, a second client writes \<open>0x10005\<close> while the service kills, and after
  the iteration the kill flag and the launch bits of that word are still set.
\<close>

theorem launch_word_kept_counterexample:
  "wlaunch (wexchange (ws_request 0x10001)) = 0x10001
   \<and> wtrace (snd (win_iteration win_ids0 wio_second_client (ws_request 0x10001)))
       = [Terminate 60, Create_process]
   \<and> wlaunch (wexchange (snd (win_iteration win_ids0 wio_second_client (ws_request 0x10001))))
       = 0x10005"
  by code_simp

subsection \<open>The shutdown flag\<close>

lemma kill_step_shutdown:
  "shutdown (exchange (kill_step ids io s))
     = (if kill_v s \<noteq> 0 then shutdown (during_kill io (exchange s)) else shutdown (exchange s))"
  by (simp add: kill_step_def sync_fetch_and_and_launch_def split: prod.splits)

lemma launch_step_shutdown:
  "shutdown (exchange (snd (launch_step io s))) = shutdown (exchange s)"
  by (simp add: launch_step_def Let_def sync_fetch_and_and_launch_def sync_swap_status_def)

lemma mac_iteration_shutdown:
  assumes k: "\<forall>ex. shutdown (during_kill io ex) = shutdown ex"
      and w: "\<forall>ex. shutdown (during_sleep io ex) = shutdown ex"
  shows "shutdown (exchange (snd (mac_iteration ids io s))) = shutdown (exchange s)"
proof -
  define s1 where "s1 = s\<lparr>exchange := (exchange s)\<lparr>cycles := cycles (exchange s) + 1\<rparr>\<rparr>"
  have a: "shutdown (exchange (snd (launch_step io (kill_step ids io s1)))) = shutdown (exchange s)"
    using k by (simp add: launch_step_shutdown kill_step_shutdown s1_def)
  show ?thesis
  proof (cases "launch_step io (kill_step ids io s1)")
    case (Pair e s3)
    with a have s3: "shutdown (exchange s3) = shutdown (exchange s)" by simp
    show ?thesis
      using Pair s3 w
      by (cases e) (simp_all add: mac_iteration_def Let_def s1_def [symmetric] reread_step_def,
                    simp_all add: s1_def)
  qed
qed

lemma win_body_shutdown:
  "wshutdown (wexchange (win_body wids wio ws))
     = (if wlaunch (wexchange ws) \<noteq> 0 \<and> LAUNCH_FLAG_KILL_FIRST AND wlaunch (wexchange ws) \<noteq> 0
        then wshutdown (w_during_kill wio
               ((wexchange ws)\<lparr>wlaunch := 0, wcycles := wcycles (wexchange ws) + 1\<rparr>))
        else wshutdown (wexchange ws))"
  by (simp add: win_body_def Let_def)

text \<open>
  Claim C5, as the two builds implement it; the time bound of the claim is outside this
  model. On the Mac the first thing after the loop is the swap that sets \<^verbatim>\<open>shutdown\<close>
  to 1, so every run of \<^verbatim>\<open>main\<close> that leaves the loop in the service process ends
  with \<^verbatim>\<open>shutdown = 1\<close>; an iteration does not change the flag unless another process
  does. On Windows the flag is stored as 1 after the loop only when the enumeration finds a
  backend process, and is left as it is otherwise; an iteration does not change it either.
\<close>

theorem shutdown_flag:
  "shutdown (exchange (mac_after_loop s)) = 1
   \<and> (mac_main tag own parent argv boot ios = Some (code, tr, Some (e, s')) \<and> e \<noteq> In_child \<longrightarrow>
        shutdown (exchange s') = 1)
   \<and> ((\<forall>ex. shutdown (during_kill io ex) = shutdown ex)
        \<and> (\<forall>ex. shutdown (during_sleep io ex) = shutdown ex) \<longrightarrow>
        shutdown (exchange (snd (mac_iteration ids io s))) = shutdown (exchange s))
   \<and> wshutdown (wexchange (win_after_loop snap ws))
       = (if snd (enumerate_processes backend_detect_handler 0 snap) = 0
          then wshutdown (wexchange ws) else 1)
   \<and> ((\<forall>ex. wshutdown (w_during_kill wio ex) = wshutdown ex)
        \<and> (\<forall>ex. wshutdown (w_during_wait wio ex) = wshutdown ex) \<longrightarrow>
        wshutdown (wexchange (snd (win_iteration wids wio ws))) = wshutdown (wexchange ws))"
proof (intro conjI impI)
  show "shutdown (exchange (mac_after_loop s)) = 1"
    by (simp add: mac_after_loop_def sync_swap_shutdown_def)
next
  assume a: "mac_main tag own parent argv boot ios = Some (code, tr, Some (e, s')) \<and> e \<noteq> In_child"
  then have "\<exists>s0. s' = mac_after_loop s0"
    by (auto simp: mac_main_def Let_def split: if_splits prod.splits option.splits loop_end.splits)
  then show "shutdown (exchange s') = 1"
    by (auto simp: mac_after_loop_def sync_swap_shutdown_def)
next
  assume "(\<forall>ex. shutdown (during_kill io ex) = shutdown ex)
        \<and> (\<forall>ex. shutdown (during_sleep io ex) = shutdown ex)"
  then show "shutdown (exchange (snd (mac_iteration ids io s))) = shutdown (exchange s)"
    using mac_iteration_shutdown by blast
next
  show "wshutdown (wexchange (win_after_loop snap ws))
       = (if snd (enumerate_processes backend_detect_handler 0 snap) = 0
          then wshutdown (wexchange ws) else 1)"
    by (simp add: win_after_loop_def)
next
  assume "(\<forall>ex. wshutdown (w_during_kill wio ex) = wshutdown ex)
        \<and> (\<forall>ex. wshutdown (w_during_wait wio ex) = wshutdown ex)"
  then show "wshutdown (wexchange (snd (win_iteration wids wio ws))) = wshutdown (wexchange ws)"
    by (simp add: win_iteration_def Let_def win_body_shutdown)
qed

text \<open>
  The run \<open>quiet_run\<close> leaves the loop on the terminate flag and ends with the flag
  set; an iteration before that leaves it at 0.
\<close>

theorem shutdown_flag_witness:
  "quiet_run
     = Some (0, [Signal_handler_installed, Shm_create 4261, Shm_removed],
             Some (Terminated, snd (the (snd (snd (the quiet_run))))))
   \<and> Terminated \<noteq> In_child
   \<and> shutdown (exchange (snd (the (snd (snd (the quiet_run)))))) = 1
   \<and> shutdown (exchange (snd (mac_iteration mac_ids0 io_idle (s_request 1)))) = 0"
proof -
  have r: "quiet_run
     = Some (0, [Signal_handler_installed, Shm_create 4261, Shm_removed],
             Some (Terminated, snd (the (snd (snd (the quiet_run))))))"
    by code_simp
  have ne: "Terminated \<noteq> In_child" by simp
  note T = shutdown_flag [where tag = "''r12345''" and own = 10 and parent = 1
      and argv = "[''/Library/shlaunch'', ''r12345'']" and boot = mac_boot0
      and ios = "[io_idle, io_term]" and code = 0
      and tr = "[Signal_handler_installed, Shm_create 4261, Shm_removed]"
      and e = Terminated and s' = "snd (the (snd (snd (the quiet_run))))"
      and io = io_idle and ids = mac_ids0 and s = "s_request 1"]
  have one: "shutdown (exchange (snd (the (snd (snd (the quiet_run)))))) = 1"
    using T r ne unfolding quiet_run_def by blast
  have q: "(\<forall>ex. shutdown (during_kill io_idle ex) = shutdown ex)
           \<and> (\<forall>ex. shutdown (during_sleep io_idle ex) = shutdown ex)"
    by (simp add: io_idle_def io_denied_def)
  have "shutdown (exchange (snd (mac_iteration mac_ids0 io_idle (s_request 1))))
          = shutdown (exchange (s_request 1))"
    using T q by blast
  then have zero: "shutdown (exchange (snd (mac_iteration mac_ids0 io_idle (s_request 1)))) = 0"
    by (simp add: s_request_def exchange_zero_def)
  show ?thesis using r ne one zero by blast
qed

text \<open>
  On Windows, when the loop is left and no process named \<^verbatim>\<open>Sighthound Agent.exe\<close> is
  running, the flag stays 0.
\<close>

theorem shutdown_not_set_counterexample:
  "wshutdown (wexchange (ws_request 0)) = 0
   \<and> wshutdown (wexchange (win_after_loop (Inr [frontend_proc]) (ws_request 0))) = 0"
  by code_simp

subsection \<open>The executable removed\<close>

text \<open>
  Claim C6, as the two builds implement it. On the Mac an iteration that does not find the
  executable increments the cycle counter, calls \<^verbatim>\<open>unlink\<close> on the plist of the
  daemon and leaves the loop, without killing or launching. The Windows loop does not
  depend on the executable being there: it is left on the exit event only, and no service
  descriptor is removed by it.
\<close>

theorem executable_gone:
  "(\<not> exe_present io \<longrightarrow>
      mac_iteration ids io s
        = (Some Executable_gone,
           s\<lparr>exchange := (exchange s)\<lparr>cycles := cycles (exchange s) + 1\<rparr>,
             trace := trace s @ [Unlink PLIST_PATH]\<rparr>))
   \<and> (\<not> term_flag io \<and> \<not> exe_present io \<longrightarrow>
      mac_main_loop ids (io # ios) s
        = Some (Executable_gone,
                s\<lparr>exchange := (exchange s)\<lparr>cycles := cycles (exchange s) + 1\<rparr>,
                  trace := trace s @ [Unlink PLIST_PATH]\<rparr>))
   \<and> win_iteration wids (wio\<lparr>w_exe_present := b\<rparr>) ws = win_iteration wids wio ws
   \<and> fst (win_iteration wids wio ws) = w_exit_event wio
   \<and> (Descriptor_removed \<in> set (wtrace (snd (win_iteration wids wio ws))) \<longrightarrow>
        Descriptor_removed \<in> set (wtrace ws))"
  by (auto simp: mac_iteration_def Let_def win_iteration_def win_body_def split: if_splits)

theorem executable_gone_witness:
  "\<not> term_flag io_exe_gone \<and> \<not> exe_present io_exe_gone
   \<and> mac_main_loop mac_ids0 [io_exe_gone, io_idle] (s_request 0x10001)
       = Some (Executable_gone,
               (s_request 0x10001)
                 \<lparr>exchange := (exchange (s_request 0x10001))\<lparr>cycles := 8\<rparr>,
                  trace := [Unlink PLIST_PATH]\<rparr>)"
proof -
  have h: "\<not> term_flag io_exe_gone \<and> \<not> exe_present io_exe_gone"
    by (simp add: io_exe_gone_def io_denied_def)
  from executable_gone [of io_exe_gone mac_ids0 "s_request 0x10001" "[io_idle]"] h
  have "mac_main_loop mac_ids0 [io_exe_gone, io_idle] (s_request 0x10001)
        = Some (Executable_gone,
            (s_request 0x10001)
              \<lparr>exchange := (exchange (s_request 0x10001))
                             \<lparr>cycles := cycles (exchange (s_request 0x10001)) + 1\<rparr>,
               trace := trace (s_request 0x10001) @ [Unlink PLIST_PATH]\<rparr>)"
    by blast
  then show ?thesis using h by (simp add: s_request_def exchange_zero_def)
qed

text \<open>
  On Windows, with the executable gone, the iteration neither leaves the loop nor removes
  anything, and the loop keeps running.
\<close>

theorem executable_gone_counterexample:
  "\<not> w_exe_present wio_exe_gone
   \<and> \<not> fst (win_iteration win_ids0 wio_exe_gone (ws_request 0))
   \<and> wtrace (snd (win_iteration win_ids0 wio_exe_gone (ws_request 0))) = []
   \<and> win_main_loop win_ids0 [wio_exe_gone, wio_exe_gone, wio_exe_gone] (ws_request 0) = None"
  by code_simp

subsection \<open>The build tag\<close>

text \<open>
  Claim C7, as the two builds implement it. The Mac \<^verbatim>\<open>main\<close> returns 5 when the first
  argument is not the build tag, before it installs the signal handler, kills a process or
  creates the shared memory. The Windows \<^verbatim>\<open>_tmain\<close> knows no build tag: an argument
  that is neither an option nor one of the four commands ends it with exit code 1.
\<close>

theorem build_mismatch:
  "(2 \<le> length argv \<and> argv ! 1 \<noteq> tag \<longrightarrow>
      mac_main tag own parent argv boot ios = Some (5, [], None))
   \<and> (module_name_ok r \<and> take 2 a \<noteq> ''--'' \<and> a \<noteq> ''remove'' \<and> a \<noteq> ''shutdown''
        \<and> a \<noteq> ''install'' \<and> a \<noteq> ''start'' \<longrightarrow>
      tmain r (exe # a # rest) = (1, []))"
proof (intro conjI impI)
  assume "2 \<le> length argv \<and> argv ! 1 \<noteq> tag"
  then show "mac_main tag own parent argv boot ios = Some (5, [], None)"
    by (simp add: mac_main_def RET_BUILD_MISMATCH_def)
next
  assume a: "module_name_ok r \<and> take 2 a \<noteq> ''--'' \<and> a \<noteq> ''remove'' \<and> a \<noteq> ''shutdown''
        \<and> a \<noteq> ''install'' \<and> a \<noteq> ''start''"
  then have "take (length ARG_PREFIX) a \<noteq> ARG_PREFIX"
    by (simp add: ARG_PREFIX_def eval_nat_numeral)
  with a show "tmain r (exe # a # rest) = (1, [])"
    by (simp add: tmain_def EXITCODE_BAD_ARGS_def)
qed

theorem build_mismatch_witness:
  "2 \<le> length [''/Library/shlaunch'', ''r99999'']
   \<and> [''/Library/shlaunch'', ''r99999''] ! 1 \<noteq> ''r12345''
   \<and> mac_main ''r12345'' 10 1 [''/Library/shlaunch'', ''r99999''] mac_boot0 [io_idle]
       = Some (5, [], None)"
  using build_mismatch [of "[''/Library/shlaunch'', ''r99999'']" "''r12345''" 10 1 mac_boot0
      "[io_idle]"]
  by simp

text \<open>
  On Windows a build tag as first argument gives exit code 1, and the argument
  \<^verbatim>\<open>shutdown\<close>, which is no build tag either, runs \<^verbatim>\<open>service_shutdown\<close>, which
  kills the processes of the product.
\<close>

theorem build_mismatch_counterexample:
  "tmain win_all_ok [''shlaunch.exe'', ''r12345''] = (1, [])
   \<and> tmain win_all_ok [''shlaunch.exe'', ''shutdown''] = (0, [Cmd_shutdown])"
  by code_simp

subsection \<open>The value \<^verbatim>\<open>TRUE\<close> in the configuration\<close>

lemma lower_TRUE: "map to_lower ''TRUE'' = ''true''"
  by code_simp

text \<open>
  Claim C8, as the two builds implement it. On the Mac a line that starts with
  \<^verbatim>\<open>autostart=\<close> or \<^verbatim>\<open>backend=\<close> sets the key to true exactly when the next four
  characters are the capitals \<^verbatim>\<open>TRUE\<close>; the comparison is \<^verbatim>\<open>strncmp\<close>, sensitive
  to case, and ignores what follows. On Windows the value found for the key is compared
  with \<^verbatim>\<open>TRUE\<close> as a whole, ignoring case.
\<close>

theorem config_value_true:
  "autoStart (fst (cfg_line (tokenAutoStart @ v) (cfg, found))) = (take 4 v = ''TRUE'')
   \<and> backend (fst (cfg_line (tokenBackend @ v) (cfg, found))) = (take 4 v = ''TRUE'')
   \<and> w_autoStart (config_read \<lparr>ini_autostart = Some v, ini_backend = b\<rparr>)
       = (map to_lower v = ''true'')
   \<and> w_backend (config_read \<lparr>ini_autostart = a, ini_backend = Some v\<rparr>)
       = (map to_lower v = ''true'')"
proof (intro conjI)
  show "autoStart (fst (cfg_line (tokenAutoStart @ v) (cfg, found))) = (take 4 v = ''TRUE'')"
    by (simp add: cfg_line_def strncmp_eq_def tokenAutoStart_def CONFIG_VALUE_TRUE_def
          eval_nat_numeral)
  show "backend (fst (cfg_line (tokenBackend @ v) (cfg, found))) = (take 4 v = ''TRUE'')"
    by (simp add: cfg_line_def strncmp_eq_def tokenAutoStart_def tokenBackend_def
          CONFIG_VALUE_TRUE_def eval_nat_numeral)
  show "w_autoStart (config_read \<lparr>ini_autostart = Some v, ini_backend = b\<rparr>)
       = (map to_lower v = ''true'')"
    unfolding config_read_def tcsicmp_eq_def lower_TRUE by auto
  show "w_backend (config_read \<lparr>ini_autostart = a, ini_backend = Some v\<rparr>)
       = (map to_lower v = ''true'')"
    unfolding config_read_def tcsicmp_eq_def lower_TRUE by auto
qed

theorem config_value_true_witness:
  "autoStart (fst (cfg_line (''autostart=TRUE'' @ newline) (cfgDefault, 0)))
   \<and> \<not> backend (fst (cfg_line (''backend=True'' @ newline) (cfgDefault, 0)))
   \<and> w_autoStart (config_read \<lparr>ini_autostart = Some ''tRuE'', ini_backend = None\<rparr>)
   \<and> \<not> w_backend (config_read \<lparr>ini_autostart = None, ini_backend = Some ''yes''\<rparr>)"
  using config_value_true [of "''TRUE'' @ newline" cfgDefault 0]
        config_value_true [of "''True'' @ newline" cfgDefault 0]
        config_value_true [of "''tRuE''" _ _ None]
        config_value_true [of "''yes''" _ _ _ None]
  by (simp add: tokenAutoStart_def tokenBackend_def newline_def) code_simp

text \<open>
  On the Mac the lower-case value \<^verbatim>\<open>true\<close> leaves \<^verbatim>\<open>autoStart\<close> false, and the
  value \<^verbatim>\<open>TRUEX\<close> sets it.
\<close>

theorem config_value_true_counterexample:
  "\<not> autoStart (snd (cfg_load (Some (''autostart=true'' @ newline))))
   \<and> autoStart (snd (cfg_load (Some (''autostart=TRUEX'' @ newline))))"
  by code_simp

subsection \<open>The size of the shared region\<close>

lemma mapping_too_small:
  "pointer_bytes \<le> 8 \<Longrightarrow> svc_main_mapping_bytes pointer_bytes < sizeof_WExchange max_path tchar_bytes"
  by (simp add: svc_main_mapping_bytes_def sizeof_WExchange_def)

text \<open>
  Claim C9 says that on every platform the region is created with the size of the whole
  structure. The Mac \<^verbatim>\<open>exchange_open\<close> asks \<^verbatim>\<open>shmget\<close> for
  \<^verbatim>\<open>sizeof(struct Exchange)\<close>, 4261 bytes. The Windows \<^verbatim>\<open>svc_main\<close> asks
  \<^verbatim>\<open>CreateFileMapping\<close> for \<^verbatim>\<open>sizeof(exchange)\<close>, the size of a pointer: 4 bytes
  in the 32-bit build, where the structure has 548 bytes (\<^verbatim>\<open>MAX_PATH\<close> of 260 wide
  characters), the size it then zeroes and stores in the field \<^verbatim>\<open>size\<close>.
\<close>

theorem mapping_size_is_pointer_size:
  "fst (svc_main_setup 4 260 2 100 ''C:'')
     = [Create_file_mapping 4, Zero_memory 548]
   \<and> wsize (snd (svc_main_setup 4 260 2 100 ''C:'')) = 548
   \<and> sizeof_WExchange 260 2 = 548
   \<and> exchange_open \<lparr>shmget_errno1 = 0, reset_err = 0, shmget_errno2 = 0, shmat_ok = True\<rparr>
       = (RET_SUCCESS, [Shm_create sizeof_Exchange])
   \<and> sizeof_Exchange = 4261"
  by code_simp

end
